theory Spec2Isabelle
  imports Complex_Main "HOL-Library.Sublist"
begin

section \<open>Lifecycle manager (src/bot/bot_manager.py)\<close>

text \<open>
  The manager keeps four dictionaries keyed by the bot name. Python objects that are shared
  and mutated (the \<^verbatim>\<open>threading.Event\<close> of a bot, the \<^verbatim>\<open>WhatsAppBot\<close> object with the
  thread that runs it) live in an explicit store: a list indexed by object identity.
  \<^verbatim>\<open>datetime.now()\<close> is a clock reading passed in as a natural number.
\<close>

record log_entry =
  timestamp :: nat
  level :: string
  message :: string

record bot_status =
  name :: string
  status :: string
  start_time :: "nat option"
  stop_time :: "nat option"
  processed_count :: int
  unread_count :: int
  logs :: "log_entry list"

text \<open>
  A \<^verbatim>\<open>WhatsAppBot\<close> together with the thread whose target is its \<^verbatim>\<open>run\<close> method.
  \<open>driver\<close> is \<^verbatim>\<open>self.driver is not None\<close>; \<open>stop_event\<close> is the identity of the event
  object handed to the constructor; \<open>thread_alive\<close> is \<^verbatim>\<open>Thread.is_alive()\<close>.
\<close>

record whatsapp_bot =
  bot_name :: string
  user_data_path :: "string option"
  stop_event :: nat
  driver :: bool
  thread_alive :: bool

record bot_manager =
  bots :: "string \<rightharpoonup> nat"
  bot_threads :: "string \<rightharpoonup> nat"
  stop_events :: "string \<rightharpoonup> nat"
  bot_statuses :: "string \<rightharpoonup> bot_status"
  events :: "bool list"
  workers :: "whatsapp_bot list"

text \<open>The factory of the \<^verbatim>\<open>defaultdict\<close> in \<^verbatim>\<open>BotManager.__init__\<close>.\<close>

definition default_status :: bot_status where
  "default_status =
     \<lparr>name = '''', status = ''Stopped'', start_time = None, stop_time = None,
      processed_count = 0, unread_count = 0, logs = []\<rparr>"

definition BotManager_init :: bot_manager where
  "BotManager_init =
     \<lparr>bots = Map.empty, bot_threads = Map.empty, stop_events = Map.empty,
      bot_statuses = Map.empty, events = [], workers = []\<rparr>"

text \<open>
  \<^verbatim>\<open>defaultdict.__getitem__\<close>: a missing key is inserted with the factory's value and that
  value is returned. \<^verbatim>\<open>defaultdict.get\<close> never inserts; it is plain map application.
\<close>

definition getitem :: "(string \<rightharpoonup> bot_status) \<Rightarrow> string \<Rightarrow> bot_status \<times> (string \<rightharpoonup> bot_status)" where
  "getitem m k = (case m k of Some v \<Rightarrow> (v, m) | None \<Rightarrow> (default_status, m(k \<mapsto> default_status)))"

text \<open>\<^verbatim>\<open>threading.Event.is_set\<close> and \<^verbatim>\<open>set\<close> on the event store.\<close>

definition is_set :: "bot_manager \<Rightarrow> nat \<Rightarrow> bool" where
  "is_set s e = (e < length (events s) \<and> events s ! e)"

definition set_event :: "bot_manager \<Rightarrow> nat \<Rightarrow> bot_manager" where
  "set_event s e = s\<lparr>events := (events s)[e := True]\<rparr>"

text \<open>\<^verbatim>\<open>WhatsAppBot.is_running\<close>: the driver exists and the stop event is not set.\<close>

definition is_running :: "bot_manager \<Rightarrow> nat \<Rightarrow> bool" where
  "is_running s b =
     (b < length (workers s) \<and> driver (workers s ! b) \<and> \<not> is_set s (stop_event (workers s ! b)))"

text \<open>
  \<^verbatim>\<open>BotManager.start_bot\<close>. \<open>ctor_raises\<close> tells whether constructing the bot (or starting its
  thread) raises, which sends control to the \<^verbatim>\<open>except\<close> branch after the stop event and the
  status record have already been written.
\<close>

definition start_bot ::
  "bot_manager \<Rightarrow> string \<Rightarrow> string option \<Rightarrow> nat \<Rightarrow> bool \<Rightarrow> bool \<times> bot_manager" where
  "start_bot s bn udp now ctor_raises =
     (if (case bots s bn of None \<Rightarrow> False | Some b \<Rightarrow> is_running s b) then (False, s)
      else
        let e = length (events s);
            (st, m) = getitem (bot_statuses s) bn;
            s1 = s\<lparr>events := events s @ [False],
                   stop_events := (stop_events s)(bn \<mapsto> e),
                   bot_statuses := m(bn \<mapsto> st\<lparr>name := bn, status := ''Starting'',
                                      start_time := Some now, stop_time := None,
                                      processed_count := 0\<rparr>)\<rparr>
        in if ctor_raises then
             (let (st', m') = getitem (bot_statuses s1) bn
              in (False, s1\<lparr>bot_statuses := m'(bn \<mapsto> st'\<lparr>status := ''Error''\<rparr>)\<rparr>))
           else
             (let b = length (workers s1)
              in (True, s1\<lparr>workers := workers s1 @
                              [\<lparr>bot_name = bn, user_data_path = udp, stop_event = e,
                                driver = False, thread_alive = True\<rparr>],
                            bots := (bots s1)(bn \<mapsto> b),
                            bot_threads := (bot_threads s1)(bn \<mapsto> b)\<rparr>)))"

text \<open>
  What the worker thread does on its own. \<^verbatim>\<open>_initialize_driver\<close> sets \<^verbatim>\<open>self.driver\<close>;
  leaving \<^verbatim>\<open>run\<close> goes through \<^verbatim>\<open>_cleanup\<close>, which writes the status \<^verbatim>\<open>Stopped\<close> and the
  stop time, after which the thread is dead.
\<close>

definition initialize_driver :: "bot_manager \<Rightarrow> nat \<Rightarrow> bot_manager" where
  "initialize_driver s b =
     (if b < length (workers s) \<and> thread_alive (workers s ! b)
      then s\<lparr>workers := (workers s)[b := (workers s ! b)\<lparr>driver := True\<rparr>]\<rparr> else s)"

definition worker_exit :: "bot_manager \<Rightarrow> nat \<Rightarrow> nat \<Rightarrow> bot_manager" where
  "worker_exit s b now =
     (if b < length (workers s) \<and> thread_alive (workers s ! b) then
        let bn = bot_name (workers s ! b);
            (st, m) = getitem (bot_statuses s) bn
        in s\<lparr>bot_statuses := m(bn \<mapsto> st\<lparr>status := ''Stopped'', stop_time := Some now\<rparr>),
             workers := (workers s)[b := (workers s ! b)\<lparr>thread_alive := False\<rparr>]\<rparr>
      else s)"

text \<open>
  \<^verbatim>\<open>thread.join(timeout)\<close> followed by \<^verbatim>\<open>thread.is_alive()\<close>. \<open>exit_delay\<close> is the time the
  worker needs to leave its loop once the stop event is set (\<open>None\<close>: it never does). The
  result is the liveness of the thread after the join.
\<close>

definition join :: "bot_manager \<Rightarrow> nat \<Rightarrow> nat \<Rightarrow> nat \<Rightarrow> nat option \<Rightarrow> bool \<times> bot_manager" where
  "join s t timeout now exit_delay =
     (if t < length (workers s) \<and> thread_alive (workers s ! t) then
        (case exit_delay of
           None \<Rightarrow> (True, s)
         | Some d \<Rightarrow> if d \<le> timeout then (False, worker_exit s t now) else (True, s))
      else (False, s))"

text \<open>\<^verbatim>\<open>BotManager.stop_bot\<close>.\<close>

definition stop_bot ::
  "bot_manager \<Rightarrow> string \<Rightarrow> nat \<Rightarrow> nat \<Rightarrow> nat option \<Rightarrow> bool \<times> bot_manager" where
  "stop_bot s bn timeout now exit_delay =
     (case bots s bn of
        None \<Rightarrow> (False, s)
      | Some b \<Rightarrow>
          let s1 = (case stop_events s bn of None \<Rightarrow> s | Some e \<Rightarrow> set_event s e);
              (alive, s2) = (case bot_threads s1 bn of
                               None \<Rightarrow> (False, s1)
                             | Some t \<Rightarrow> join s1 t timeout now exit_delay)
          in if alive then (False, s2)
             else
               let (st, m) = getitem (bot_statuses s2) bn
               in (True, s2\<lparr>bot_statuses := m(bn \<mapsto> st\<lparr>status := ''Stopped'', stop_time := Some now\<rparr>),
                            bots := (bots s2)(bn := None),
                            bot_threads := (bot_threads s2)(bn := None)\<rparr>))"

text \<open>
  \<^verbatim>\<open>get_bot_status\<close> reads with \<^verbatim>\<open>.get(bot_name, {})\<close>: the result \<open>None\<close> stands for the
  empty dictionary, and the manager is returned to show that nothing is inserted.
  \<^verbatim>\<open>get_all_statuses\<close> copies every entry.
\<close>

definition get_bot_status :: "bot_manager \<Rightarrow> string \<Rightarrow> bot_status option \<times> bot_manager" where
  "get_bot_status s bn = (bot_statuses s bn, s)"

definition get_all_statuses :: "bot_manager \<Rightarrow> (string \<rightharpoonup> bot_status)" where
  "get_all_statuses s = bot_statuses s"

text \<open>
  \<^verbatim>\<open>add_bot_log\<close>: append, then \<^verbatim>\<open>pop(0)\<close> once when the length exceeds 50.
\<close>

definition add_bot_log :: "bot_manager \<Rightarrow> string \<Rightarrow> string \<Rightarrow> string \<Rightarrow> nat \<Rightarrow> bot_manager" where
  "add_bot_log s bn msg lvl now =
     (let (st, m) = getitem (bot_statuses s) bn;
          ls = logs st @ [\<lparr>timestamp = now, level = lvl, message = msg\<rparr>];
          ls' = (if length ls > 50 then tl ls else ls)
      in s\<lparr>bot_statuses := m(bn \<mapsto> st\<lparr>logs := ls'\<rparr>)\<rparr>)"

definition update_bot_status :: "bot_manager \<Rightarrow> string \<Rightarrow> string \<Rightarrow> int option \<Rightarrow> bot_manager" where
  "update_bot_status s bn new_status unread =
     (let (st, m) = getitem (bot_statuses s) bn;
          st1 = st\<lparr>status := new_status\<rparr>;
          st2 = (case unread of None \<Rightarrow> st1 | Some u \<Rightarrow> st1\<lparr>unread_count := u\<rparr>)
      in s\<lparr>bot_statuses := m(bn \<mapsto> st2)\<rparr>)"

definition increment_processed_count :: "bot_manager \<Rightarrow> string \<Rightarrow> bot_manager" where
  "increment_processed_count s bn =
     (let (st, m) = getitem (bot_statuses s) bn
      in s\<lparr>bot_statuses := m(bn \<mapsto> st\<lparr>processed_count := processed_count st + 1\<rparr>)\<rparr>)"

text \<open>A sequence of \<^verbatim>\<open>add_bot_log\<close> calls: bot name, message, level, clock reading.\<close>

fun add_bot_logs :: "bot_manager \<Rightarrow> (string \<times> string \<times> string \<times> nat) list \<Rightarrow> bot_manager" where
  "add_bot_logs s [] = s"
| "add_bot_logs s ((bn, msg, lvl, now) # cs) = add_bot_logs (add_bot_log s bn msg lvl now) cs"

text \<open>The log of a bot as a status query shows it; an absent record has no log.\<close>

definition logs_of :: "bot_manager \<Rightarrow> string \<Rightarrow> log_entry list" where
  "logs_of s bn = (case bot_statuses s bn of None \<Rightarrow> [] | Some st \<Rightarrow> logs st)"

text \<open>The threads that are alive and were started for a given bot name.\<close>

definition live_workers :: "bot_manager \<Rightarrow> string \<Rightarrow> whatsapp_bot list" where
  "live_workers s bn = filter (\<lambda>w. bot_name w = bn \<and> thread_alive w) (workers s)"

text \<open>
  \<^verbatim>\<open>is_bot_running\<close>, the manager's own liveness test: both handles are registered and the
  thread is alive.
\<close>

definition is_bot_running :: "bot_manager \<Rightarrow> string \<Rightarrow> bool" where
  "is_bot_running s bn =
     (case (bots s bn, bot_threads s bn) of
        (Some b, Some t) \<Rightarrow> t < length (workers s) \<and> thread_alive (workers s ! t)
      | _ \<Rightarrow> False)"

text \<open>The manager after the first statement group of \<^verbatim>\<open>stop_bot\<close>: the stop event is set.\<close>

definition signalled :: "bot_manager \<Rightarrow> string \<Rightarrow> bot_manager" where
  "signalled s bn = (case stop_events s bn of None \<Rightarrow> s | Some e \<Rightarrow> set_event s e)"

text \<open>Fifty log calls for one bot, used to fill a log to its capacity.\<close>

definition fifty_calls :: "(string \<times> string \<times> string \<times> nat) list" where
  "fifty_calls = map (\<lambda>i. (''A'', ''m'', ''info'', i)) [0..<50]"

text \<open>The manager after one successful \<^verbatim>\<open>start_bot\<close> of the bot \<^verbatim>\<open>A\<close>.\<close>

definition started_A :: bot_manager where
  "started_A = snd (start_bot BotManager_init ''A'' None 0 False)"

section \<open>Strings (Python \<^verbatim>\<open>str\<close> and \<^verbatim>\<open>re\<close> as used by the message code)\<close>

text \<open>
  A Python string is a list of code points. A code point below 256 is \<open>Chr c\<close>, with
  the character \<open>c\<close> of that value; a code point \<open>n\<close> from 256 on is \<open>Wide n\<close>, with
  \<open>n\<close> an integer.
  \<open>lit\<close> turns an ASCII literal into a string.
\<close>

datatype codepoint = Chr char | Wide int

type_synonym ustr = "codepoint list"

definition lit :: "string \<Rightarrow> ustr" where
  "lit s = map Chr s"

text \<open>
  The interpreter's Unicode tables that the code depends on are not part of the
  repository; they are a parameter of everything below. \<open>str_lower\<close> is \<^verbatim>\<open>str.lower\<close> (a
  function of the whole string: it may change the length and looks at the context),
  \<open>isalnum\<close> is \<^verbatim>\<open>str.isalnum\<close> of one character, and \<open>ignorecase p c\<close> tells whether the
  literal pattern character \<open>p\<close> matches the character \<open>c\<close> under \<^verbatim>\<open>re.IGNORECASE\<close>.
\<close>

record unicode_tables =
  str_lower :: "ustr \<Rightarrow> ustr"
  isalnum :: "codepoint \<Rightarrow> bool"
  ignorecase :: "codepoint \<Rightarrow> codepoint \<Rightarrow> bool"

text \<open>
  White space is the same finite set for \<^verbatim>\<open>str.isspace\<close>, \<^verbatim>\<open>str.strip\<close>, \<^verbatim>\<open>str.split\<close> and
  the regular expression \<^verbatim>\<open>\s\<close>: the ASCII controls 9 to 13 and 28 to 31, the blank,
  U+0085, U+00A0, U+1680, U+2000 to U+200A, U+2028, U+2029, U+202F, U+205F and U+3000.
  A word character (\<^verbatim>\<open>\w\<close>) is an alphanumeric character or the underscore.
\<close>

definition whitespace :: "codepoint list" where
  "whitespace =
     map Chr [CHR 0x09, CHR 0x0A, CHR 0x0B, CHR 0x0C, CHR 0x0D, CHR 0x1C, CHR 0x1D, CHR 0x1E,
              CHR 0x1F, CHR 0x20, CHR 0x85, CHR 0xA0] @
     map Wide [0x1680, 0x2000, 0x2001, 0x2002, 0x2003, 0x2004, 0x2005, 0x2006, 0x2007,
               0x2008, 0x2009, 0x200A, 0x2028, 0x2029, 0x202F, 0x205F, 0x3000]"

definition isspace :: "codepoint \<Rightarrow> bool" where
  "isspace c = (c \<in> set whitespace)"

definition word_char :: "unicode_tables \<Rightarrow> codepoint \<Rightarrow> bool" where
  "word_char db c = (isalnum db c \<or> c = Chr CHR ''_'')"

text \<open>\<^verbatim>\<open>s.strip()\<close> and \<^verbatim>\<open>sub in s\<close>.\<close>

definition str_strip :: "ustr \<Rightarrow> ustr" where
  "str_strip s = rev (dropWhile isspace (rev (dropWhile isspace s)))"

fun str_contains :: "ustr \<Rightarrow> ustr \<Rightarrow> bool" where
  "str_contains sub [] = (sub = [])"
| "str_contains sub (c # cs) = (prefix sub (c # cs) \<or> str_contains sub cs)"

text \<open>
  The maximal runs of characters that satisfy \<open>P\<close>, left to right: with \<^const>\<open>word_char\<close>
  this is \<^verbatim>\<open>re.findall(r'\w+', s)\<close>, with the non-space characters it is \<^verbatim>\<open>s.split()\<close>.
\<close>

fun runs :: "(codepoint \<Rightarrow> bool) \<Rightarrow> ustr \<Rightarrow> ustr \<Rightarrow> ustr list" where
  "runs P cur [] = (if cur = [] then [] else [cur])"
| "runs P cur (c # cs) =
     (if P c then runs P (cur @ [c]) cs
      else (if cur = [] then [] else [cur]) @ runs P [] cs)"

definition findall_words :: "unicode_tables \<Rightarrow> ustr \<Rightarrow> ustr list" where
  "findall_words db s = runs (word_char db) [] s"

definition str_split :: "ustr \<Rightarrow> ustr list" where
  "str_split s = runs (\<lambda>c. \<not> isspace c) [] s"

text \<open>\<^verbatim>\<open>sep.join(xs)\<close>.\<close>

fun str_join :: "ustr \<Rightarrow> ustr list \<Rightarrow> ustr" where
  "str_join sep [] = []"
| "str_join sep [x] = x"
| "str_join sep (x # y # ys) = x @ sep @ str_join sep (y # ys)"

text \<open>
  The tables restricted to ASCII: on text and patterns made of ASCII characters the
  interpreter's tables are these. They serve to evaluate the examples, which are ASCII.
\<close>

definition ascii_uppercase :: string where
  "ascii_uppercase = ''ABCDEFGHIJKLMNOPQRSTUVWXYZ''"

definition ascii_lowercase :: string where
  "ascii_lowercase = ''abcdefghijklmnopqrstuvwxyz''"

definition digits :: string where
  "digits = ''0123456789''"

fun ascii_lower_char :: "codepoint \<Rightarrow> codepoint" where
  "ascii_lower_char (Chr c) =
     (case map_of (zip ascii_uppercase ascii_lowercase) c of None \<Rightarrow> Chr c | Some d \<Rightarrow> Chr d)"
| "ascii_lower_char (Wide n) = Wide n"

fun ascii_alnum :: "codepoint \<Rightarrow> bool" where
  "ascii_alnum (Chr c) = (c \<in> set (ascii_lowercase @ ascii_uppercase @ digits))"
| "ascii_alnum (Wide n) = False"

definition ascii_tables :: unicode_tables where
  "ascii_tables =
     \<lparr>str_lower = map ascii_lower_char,
      isalnum = ascii_alnum,
      ignorecase = (\<lambda>p c. ascii_lower_char p = ascii_lower_char c)\<rparr>"

section \<open>Keyword configuration and classification (src/message_helpers.py)\<close>

text \<open>
  The keyword configuration is the dictionary read from the JSON file, or the built-in
  one when the file is missing or unreadable. \<open>kw_get\<close> is \<^verbatim>\<open>self.keywords.get(k, [])\<close>.
\<close>

type_synonym keyword_config = "ustr \<rightharpoonup> ustr list"

definition kw_get :: "keyword_config \<Rightarrow> string \<Rightarrow> ustr list" where
  "kw_get kw k = (case kw (lit k) of None \<Rightarrow> [] | Some v \<Rightarrow> v)"

text \<open>\<^verbatim>\<open>_get_default_keywords\<close>.\<close>

definition default_keywords :: keyword_config where
  "default_keywords = map_of (map (\<lambda>(k, vs). (lit k, map lit vs))
    [(''greetings'',
        [''hi'', ''hello'', ''hey'', ''good morning'', ''good afternoon'',
         ''good evening'', ''good night'', ''greetings'', ''namaste'',
         ''hola'', ''bonjour'', ''salut'']),
     (''acknowledgments'',
        [''thanks'', ''thank you'', ''thx'', ''ty'', ''thanku'', ''tnx'',
         ''noted'', ''noted with thanks'',
         ''okay'', ''ok'', ''okey'', ''okie'', ''okk'',
         ''k'', ''kk'', ''kay'',
         ''alright'', ''all right'', ''rite'',
         ''got it'', ''gotcha'', ''understood'',
         ''cool'', ''fine'', ''great'', ''awesome'', ''perfect'', ''sure'',
         ''confirmed'', ''confirm'', ''done'', ''completed'',
         ''yep'', ''yes'', ''yeah'', ''ya'', ''yah'']),
     (''paypal'',
        [''paypal'', ''pay pal'', ''paypal payment'', ''pay through paypal'',
         ''paypal option'', ''paypal link'', ''undertaking letter'',
         ''paypal account'']),
     (''publications'',
        [''publication'', ''article'', ''research paper'', ''journal'',
         ''publish'', ''manuscript'', ''paper submission'',
         ''research publication'', ''journal article'', ''publish paper'',
         ''research work'', ''e-journal'']),
     (''remittance'',
        [''remittance'', ''payment proof'', ''receipt'', ''transaction'',
         ''payment receipt'', ''bank transfer'', ''payment confirmation'',
         ''proof of payment'', ''payment slip'']),
     (''fees'',
        [''fee'', ''fees'', ''payment'', ''invoice'', ''pay'', ''due'',
         ''balance'', ''amount'', ''bill'', ''tuition'', ''outstanding'',
         ''partial'', ''next installment'', ''fee structure'']),
     (''academic'',
        [''course'', ''grade'', ''mark'', ''enrollment'', ''subject'',
         ''program'', ''academic'', ''mentor'', ''block'', ''test'', ''exam'',
         ''status'', ''duration'', ''study material'', ''assignment'']),
     (''lms_cms'',
        [''lms'', ''cms'', ''learning management'', ''course management'',
         ''portal'', ''login'', ''password'', ''access'', ''interface'']),
     (''greeting_prefixes'',
        [''hi'', ''hello'', ''hey'', ''good morning'', ''good afternoon'',
         ''good evening'', ''dear'', ''respected'', ''sir'', ''madam'']),
     (''salutations'',
        [''sir'', ''madam'', ''ma'am'', ''mr'', ''mrs'', ''ms'', ''dr'', ''prof'']),
     (''student_specific'',
        [''my fee'', ''my payment'', ''my invoice'', ''my balance'', ''my due'',
         ''my course'', ''my grade'', ''my marks'', ''my status'', ''my enrollment'',
         ''application number'', ''student id'', ''my account'']),
     (''tau_university'',
        [''texila'', ''tau'', ''texila american university'',
         ''our university'', ''this university'', ''university details'',
         ''about tau'', ''about texila''])])"

text \<open>\<^verbatim>\<open>any(kw in text for kw in phrases)\<close>.\<close>

definition any_in :: "ustr list \<Rightarrow> ustr \<Rightarrow> bool" where
  "any_in phrases s = list_ex (\<lambda>k. str_contains k s) phrases"

definition is_pure_greeting :: "unicode_tables \<Rightarrow> keyword_config \<Rightarrow> ustr \<Rightarrow> bool" where
  "is_pure_greeting db kw msg =
     (let greetings = kw_get kw ''greetings'';
          message_lower = str_strip (str_lower db msg);
          ws = findall_words db message_lower
      in length ws \<le> 3 \<and> any_in greetings message_lower \<and> Chr CHR ''?'' \<notin> set msg)"

definition is_satisfied_response :: "unicode_tables \<Rightarrow> keyword_config \<Rightarrow> ustr \<Rightarrow> bool" where
  "is_satisfied_response db kw msg =
     (let acknowledgments = kw_get kw ''acknowledgments'';
          message_lower = str_strip (str_lower db msg)
      in if length (str_split msg) \<le> 3 then any_in acknowledgments message_lower else False)"

definition is_paypal_query :: "unicode_tables \<Rightarrow> keyword_config \<Rightarrow> ustr \<Rightarrow> bool" where
  "is_paypal_query db kw msg = any_in (kw_get kw ''paypal'') (str_lower db msg)"

definition is_publication_query :: "unicode_tables \<Rightarrow> keyword_config \<Rightarrow> ustr \<Rightarrow> bool" where
  "is_publication_query db kw msg = any_in (kw_get kw ''publications'') (str_lower db msg)"

definition is_remittance_query :: "unicode_tables \<Rightarrow> keyword_config \<Rightarrow> ustr \<Rightarrow> bool" where
  "is_remittance_query db kw msg = any_in (kw_get kw ''remittance'') (str_lower db msg)"

section \<open>Extracting the question (\<^verbatim>\<open>extract_question_from_message\<close>)\<close>

text \<open>
  \<^verbatim>\<open>re.escape\<close> puts a backslash before each special character. The escaped phrases are
  joined with \<^verbatim>\<open>|\<close>; the code tests the joined pattern for emptiness, and the pattern
  itself matches the phrases literally, in the order of the list.
\<close>

definition re_special :: ustr where
  "re_special = lit ''()[]{}?*+-|^$'' @ [Chr (CHR 0x5C)] @ lit ''.&~# '' @
                  map Chr [CHR 0x09, CHR 0x0A, CHR 0x0D, CHR 0x0B, CHR 0x0C]"

definition re_escape :: "ustr \<Rightarrow> ustr" where
  "re_escape s = concat (map (\<lambda>c. if c \<in> set re_special then [Chr (CHR 0x5C), c] else [c]) s)"

text \<open>
  A phrase matches at the start of \<open>s\<close> under \<^verbatim>\<open>re.IGNORECASE\<close>: character by character.
\<close>

definition prefix_ci :: "unicode_tables \<Rightarrow> ustr \<Rightarrow> ustr \<Rightarrow> bool" where
  "prefix_ci db p s = (length p \<le> length s \<and> list_all2 (ignorecase db) p (take (length p) s))"

text \<open>
  What \<^verbatim>\<open>\s*[,.]?\s*\<close> and \<^verbatim>\<open>[,.]?\s*\<close> consume at the start of a string; every part is
  greedy and optional, so the match never backtracks.
\<close>

definition drop_punct :: "ustr \<Rightarrow> ustr" where
  "drop_punct s =
     (case s of [] \<Rightarrow> []
      | c # cs \<Rightarrow> if c = Chr CHR '','' \<or> c = Chr CHR ''.'' then cs else s)"

definition skip_sep :: "ustr \<Rightarrow> ustr" where
  "skip_sep s = dropWhile isspace (drop_punct (dropWhile isspace s))"

definition skip_punct_space :: "ustr \<Rightarrow> ustr" where
  "skip_punct_space s = dropWhile isspace (drop_punct s)"

text \<open>
  \<^verbatim>\<open>re.sub('^(g1|g2|...)\s*[,.]?\s*', '', message, flags=re.IGNORECASE)\<close>. Without
  \<^verbatim>\<open>re.MULTILINE\<close> the anchor matches at position 0 only. The alternatives are tried in the
  order of the list; an empty match replaces nothing, and after it \<^verbatim>\<open>re.sub\<close> looks for a
  non-empty match at the same position, so the phrase removed (with the separators after
  it) is the first one whose match is not empty. \<open>greeting_rest\<close> is what is left of the
  message for one alternative.
\<close>

definition greeting_rest :: "unicode_tables \<Rightarrow> ustr \<Rightarrow> ustr \<Rightarrow> ustr option" where
  "greeting_rest db msg g =
     (if prefix_ci db g msg \<and> length (skip_sep (drop (length g) msg)) < length msg
      then Some (skip_sep (drop (length g) msg)) else None)"

definition remove_greeting :: "unicode_tables \<Rightarrow> ustr list \<Rightarrow> ustr \<Rightarrow> ustr" where
  "remove_greeting db greeting_prefixes msg =
     (if str_join (lit ''|'') (map re_escape greeting_prefixes) = [] then msg
      else case List.map_filter (greeting_rest db msg) greeting_prefixes of
             [] \<Rightarrow> msg
           | r # _ \<Rightarrow> r)"

text \<open>
  The word boundary \<^verbatim>\<open>\b\<close> between the character before a position (\<open>None\<close> at the
  start) and the rest of the string.
\<close>

definition boundary :: "unicode_tables \<Rightarrow> codepoint option \<Rightarrow> ustr \<Rightarrow> bool" where
  "boundary db prev rest =
     ((case prev of None \<Rightarrow> False | Some p \<Rightarrow> word_char db p) \<noteq>
      (case rest of [] \<Rightarrow> False | c # _ \<Rightarrow> word_char db c))"

text \<open>
  The length of the match of \<^verbatim>\<open>(s1|s2|...)\b[,.]?\s*\<close> for one alternative \<open>p\<close> at the
  start of \<open>rest\<close>, if it matches there.
\<close>

definition alt_match :: "unicode_tables \<Rightarrow> codepoint option \<Rightarrow> ustr \<Rightarrow> ustr \<Rightarrow> nat option" where
  "alt_match db prev rest p =
     (if prefix_ci db p rest \<and>
         boundary db (if p = [] then prev else Some (last (take (length p) rest)))
           (drop (length p) rest)
      then Some (length rest - length (skip_punct_space (drop (length p) rest)))
      else None)"

text \<open>
  The match of \<^verbatim>\<open>\b(s1|s2|...)\b[,.]?\s*\<close> at one position: the alternatives are tried in
  order. An empty match replaces nothing, and after it \<^verbatim>\<open>re.sub\<close> looks for a non-empty
  match at the same position before moving on, so the length returned is that of the first
  alternative with a non-empty match.
\<close>

definition match_at :: "unicode_tables \<Rightarrow> ustr list \<Rightarrow> codepoint option \<Rightarrow> ustr \<Rightarrow> nat option" where
  "match_at db salutations prev rest =
     (if boundary db prev rest then
        (case filter (\<lambda>n. n > 0) (List.map_filter (alt_match db prev rest) salutations) of
           [] \<Rightarrow> None
         | n # _ \<Rightarrow> Some n)
      else None)"

text \<open>
  \<^verbatim>\<open>re.sub\<close> with the salutation pattern: a scan from left to right. \<open>skip\<close> counts the
  characters of the current match still to drop; \<open>prev\<close> is the previous character of the
  original string, which is what \<^verbatim>\<open>\b\<close> looks at.
\<close>

fun sub_scan :: "unicode_tables \<Rightarrow> ustr list \<Rightarrow> codepoint option \<Rightarrow> nat \<Rightarrow> ustr \<Rightarrow> ustr" where
  "sub_scan db sal prev skip [] = []"
| "sub_scan db sal prev skip (c # cs) =
     (if skip > 0 then sub_scan db sal (Some c) (skip - 1) cs
      else case match_at db sal prev (c # cs) of
             Some n \<Rightarrow> sub_scan db sal (Some c) (n - 1) cs
           | None \<Rightarrow> c # sub_scan db sal (Some c) 0 cs)"

definition remove_salutations :: "unicode_tables \<Rightarrow> ustr list \<Rightarrow> ustr \<Rightarrow> ustr" where
  "remove_salutations db salutations s =
     (if str_join (lit ''|'') (map re_escape salutations) = [] then s
      else sub_scan db salutations None 0 s)"

text \<open>\<^verbatim>\<open>re.sub(r'\s+', ' ', s)\<close>: every maximal run of white space becomes one blank.\<close>

fun collapse_ws :: "bool \<Rightarrow> ustr \<Rightarrow> ustr" where
  "collapse_ws in_run [] = []"
| "collapse_ws in_run (c # cs) =
     (if isspace c then (if in_run then collapse_ws True cs else Chr CHR '' '' # collapse_ws True cs)
      else c # collapse_ws False cs)"

text \<open>The two removal steps and the clean-up of \<^verbatim>\<open>extract_question_from_message\<close>.\<close>

definition cleaned_text :: "unicode_tables \<Rightarrow> keyword_config \<Rightarrow> ustr \<Rightarrow> ustr" where
  "cleaned_text db kw msg =
     (let greeting_prefixes = kw_get kw ''greeting_prefixes'';
          salutations = kw_get kw ''salutations'';
          cleaned1 = remove_greeting db greeting_prefixes msg;
          cleaned2 = remove_salutations db salutations cleaned1
      in str_strip (collapse_ws False cleaned2))"

definition extract_question_from_message :: "unicode_tables \<Rightarrow> keyword_config \<Rightarrow> ustr \<Rightarrow> ustr" where
  "extract_question_from_message db kw msg =
     (let cleaned = cleaned_text db kw msg
      in if cleaned \<noteq> [] then cleaned else msg)"


section \<open>Retrieval engine (src/rag/rag_engine.py)\<close>

text \<open>
  A retrieved chunk with its metadata dictionary; \<open>md_get\<close> is \<^verbatim>\<open>metadata.get(k, '')\<close>.
\<close>

record doc =
  page_content :: ustr
  metadata :: "(ustr \<times> ustr) list"

definition md_get :: "doc \<Rightarrow> string \<Rightarrow> ustr" where
  "md_get d k = (case map_of (metadata d) (lit k) of None \<Rightarrow> [] | Some v \<Rightarrow> v)"

text \<open>
  The engine holds the vector store (\<open>None\<close> before it is created or loaded).
  \<open>set_order\<close> ranks strings the way the interpreter iterates over a \<^verbatim>\<open>set\<close> of them; it
  is fixed for a running process.
\<close>

record 'idx rag_engine =
  vector_store :: "'idx option"
  set_order :: "ustr \<Rightarrow> nat"

text \<open>
  What the outside world does during one call of the pipeline. The two searches are calls
  into the embedding service and the vector-store library, so what they return belongs to
  the call, not to the engine: \<open>get_relevant_documents\<close> is the retriever with \<^verbatim>\<open>k = 4\<close> and
  \<^verbatim>\<open>score_threshold = 0.65\<close>, whose result is the list of chunks that survive the
  threshold, and \<open>qa_source_documents\<close> is the plain \<^verbatim>\<open>k = 4\<close> retriever inside the
  question-answering chain, whose result is \<^verbatim>\<open>result['source_documents']\<close>. Further:
  whether setting up the chain or the retrieval raises, the text returned by the
  generation call of the chain (\<open>None\<close>: it raises), the index drawn by
  \<^verbatim>\<open>random.choice\<close>, and the text returned by the formatting model for a student record
  (\<open>None\<close>: it raises).
\<close>

record 'idx call_effects =
  get_relevant_documents :: "'idx \<Rightarrow> ustr \<Rightarrow> doc list"
  qa_source_documents :: "'idx \<Rightarrow> ustr \<Rightarrow> doc list"
  retrieval_raises :: bool
  generation :: "ustr option"
  choice :: nat
  formatting :: "ustr option"

text \<open>The result of the \<^verbatim>\<open>except\<close> branch of \<^verbatim>\<open>RAGEngine.query\<close>.\<close>

definition query_error :: "ustr \<Rightarrow> ustr \<times> rat \<times> ustr list" where
  "query_error salutation =
     (salutation @ lit '', I encountered an error processing your question. '' @
        lit ''Please try again or contact support.'', 0, [])"

definition could_not_find :: "ustr \<Rightarrow> ustr" where
  "could_not_find salutation =
     salutation @ lit '', I couldn't find specific information about your query. '' @
       lit ''Could you rephrase or provide more details?''"

text \<open>
  \<^verbatim>\<open>RAGEngine.query\<close>. The confidence \<^verbatim>\<open>min(len(relevant_docs) / 4.0, 1.0) * 0.9\<close> is a
  rational number here; the floating-point values the code can produce (0, 0.225, 0.45,
  0.675, 0.9) compare with the thresholds 0.65 and 0.75 as the rationals do.
\<close>

definition confidence_of :: "nat \<Rightarrow> rat" where
  "confidence_of n = min (of_nat n / 4) 1 * (9 / 10)"

definition source_questions :: "(ustr \<Rightarrow> nat) \<Rightarrow> doc list \<Rightarrow> ustr list" where
  "source_questions ord source_docs =
     take 3 (sort_key ord (remdups
       (map (\<lambda>d. md_get d ''question'') (filter (\<lambda>d. md_get d ''question'' \<noteq> []) source_docs))))"

text \<open>The optional interface filter on the chunks that survived the threshold.\<close>

definition interface_filter :: "unicode_tables \<Rightarrow> ustr option \<Rightarrow> doc list \<Rightarrow> doc list" where
  "interface_filter db interface relevant_docs =
     (case interface of
        None \<Rightarrow> relevant_docs
      | Some i \<Rightarrow>
          if i = [] then relevant_docs
          else filter (\<lambda>d. str_lower db (md_get d ''interface'') = str_lower db i) relevant_docs)"

definition query ::
  "unicode_tables \<Rightarrow> 'idx rag_engine \<Rightarrow> 'idx call_effects \<Rightarrow> ustr \<Rightarrow> ustr \<Rightarrow> ustr option
     \<Rightarrow> ustr \<times> rat \<times> ustr list" where
  "query db eng fx question salutation interface =
     (case vector_store eng of
        None \<Rightarrow> (lit ''I'm having technical difficulties. Please try again.'', 0, [])
      | Some vs \<Rightarrow>
          if retrieval_raises fx then query_error salutation
          else
            let relevant_docs = get_relevant_documents fx vs question
            in if relevant_docs = [] then (could_not_find salutation, 0, [])
               else
                 let relevant_docs' = interface_filter db interface relevant_docs
                 in case generation fx of
                      None \<Rightarrow> query_error salutation
                    | Some answer \<Rightarrow>
                        (answer,
                         confidence_of (length relevant_docs'),
                         source_questions (set_order eng) (qa_source_documents fx vs question)))"

section \<open>Message processor (src/bot/message_processor.py)\<close>

record conversation_result =
  response :: ustr
  message_type :: ustr
  confidence :: rat
  sources :: "ustr list"
  category :: ustr
  requires_followup :: "bool option"

text \<open>
  The data-access collaborator: \<^verbatim>\<open>fetch_invoice_data\<close> and \<^verbatim>\<open>fetch_academic_data\<close> return
  a record (here its \<^verbatim>\<open>str()\<close>) or \<^verbatim>\<open>None\<close>; both catch their own exceptions.
\<close>

record student_repository =
  fetch_invoice_data :: "ustr \<Rightarrow> ustr option"
  fetch_academic_data :: "ustr \<Rightarrow> ustr option"

definition handle_greeting :: "'idx call_effects \<Rightarrow> ustr \<Rightarrow> conversation_result" where
  "handle_greeting fx salutation =
     (let greetings =
            [salutation @ lit '', hello! How can I assist you today?'',
             lit ''Hi '' @ salutation @ lit ''! I'm here to help with your queries.'',
             lit ''Greetings '' @ salutation @ lit ''! What can I do for you?'']
      in \<lparr>response = greetings ! (choice fx mod 3), message_type = lit ''greeting'',
          confidence = 1, sources = [], category = lit ''greeting'', requires_followup = None\<rparr>)"

definition handle_acknowledgment :: "'idx call_effects \<Rightarrow> ustr \<Rightarrow> conversation_result" where
  "handle_acknowledgment fx salutation =
     (let responses =
            [salutation @ lit '', glad I could help! Do you have any other questions?'',
             lit ''You're welcome '' @ salutation @
               lit ''! Feel free to ask if you need anything else.'',
             salutation @ lit '', happy to assist! Let me know if there's anything more.'']
      in \<lparr>response = responses ! (choice fx mod 3), message_type = lit ''acknowledgment'',
          confidence = 1, sources = [], category = lit ''post_interaction'',
          requires_followup = None\<rparr>)"

definition handle_paypal_query :: "ustr \<Rightarrow> conversation_result" where
  "handle_paypal_query salutation =
     \<lparr>response = salutation @ lit '', to proceed with PayPal payment, reply with:\<newline>\<newline>'' @
          lit ''1 - I already have the undertaking letter\<newline>'' @
          lit ''2 - Send me the undertaking letter template\<newline>\<newline>'' @
          lit ''Please reply with 1 or 2.'',
      message_type = lit ''paypal_query'', confidence = 1, sources = [],
      category = lit ''payment'', requires_followup = Some True\<rparr>"

text \<open>
  The fixed contact text of the publication reply, with the code points of its three
  symbols beyond ASCII: U+1F4E7 (envelope), U+1F4F1 (telephone), U+2022 (bullet).
\<close>

definition publication_contact :: "ustr \<Rightarrow> ustr" where
  "publication_contact salutation =
     salutation @ lit '', for queries related to publications or research articles, '' @
     lit ''please contact our E-Journal Executive:\<newline>\<newline>'' @
     [Wide 0x1F4E7] @ lit '' Email: sabitha.k@tauedu.org or ejournal.assist@tau.edu.gy\<newline>'' @
     [Wide 0x1F4F1] @ lit '' WhatsApp:\<newline>'' @
     lit ''  '' @ [Wide 0x2022] @ lit '' Public Health, Management: +91 7397735325\<newline>'' @
     lit ''  '' @ [Wide 0x2022] @ lit '' Academic Research, Medicine: +91 9500108397''"

definition handle_publication_query ::
  "unicode_tables \<Rightarrow> 'idx rag_engine \<Rightarrow> 'idx call_effects \<Rightarrow> ustr \<Rightarrow> ustr
     \<Rightarrow> conversation_result" where
  "handle_publication_query db eng fx salutation msg =
     (let (answer, conf, srcs) = query db eng fx msg salutation None;
          faq_addition = (if conf \<ge> 65 / 100 then lit ''\<newline>\<newline>'' @ answer else [])
      in \<lparr>response = publication_contact salutation @ faq_addition,
          message_type = lit ''publication_query'', confidence = 1, sources = srcs,
          category = lit ''publication'', requires_followup = None\<rparr>)"

definition handle_remittance_query :: "ustr \<Rightarrow> conversation_result" where
  "handle_remittance_query salutation =
     \<lparr>response = salutation @ lit '', thank you for sharing the remittance copy. '' @
          lit ''I will forward it to our Finance team for verification and mapping. '' @
          lit ''You can check the status in the CMS portal within 3-10 business days.'',
      message_type = lit ''remittance_confirmation'', confidence = 1, sources = [],
      category = lit ''finance'', requires_followup = None\<rparr>"

definition is_student_specific_query :: "unicode_tables \<Rightarrow> ustr \<Rightarrow> bool" where
  "is_student_specific_query db msg =
     any_in (map lit [''my fee'', ''my payment'', ''my invoice'', ''my balance'', ''my due'',
                    ''my course'', ''my grade'', ''my marks'', ''my status'', ''my enrollment'',
                    ''application number'', ''student id'', ''my account''])
       (str_lower db msg)"

text \<open>
  \<^verbatim>\<open>_handle_faq_query\<close>. The chat context is a list of (sender, message) entries or
  \<^verbatim>\<open>None\<close>; an empty list is falsy as well.
\<close>

definition enhanced_query :: "ustr \<Rightarrow> (ustr \<times> ustr) list option \<Rightarrow> ustr" where
  "enhanced_query msg chat_context =
     (case chat_context of
        None \<Rightarrow> msg
      | Some ctx \<Rightarrow>
          if ctx = [] then msg
          else lit ''Context:\<newline>'' @
               str_join (lit ''\<newline>'') (map (\<lambda>(sender, m). sender @ lit '': '' @ m)
                                            (drop (length ctx - 3) ctx)) @
               lit ''\<newline>\<newline>Current question: '' @ msg)"

definition low_confidence_hint :: ustr where
  "low_confidence_hint =
     lit ''\<newline>\<newline>If this doesn't fully answer your question, '' @
     lit ''please provide more details or contact support.''"

definition handle_faq_query ::
  "unicode_tables \<Rightarrow> 'idx rag_engine \<Rightarrow> 'idx call_effects \<Rightarrow> ustr \<Rightarrow> ustr
     \<Rightarrow> (ustr \<times> ustr) list option \<Rightarrow> conversation_result" where
  "handle_faq_query db eng fx msg salutation chat_context =
     (let (answer, conf, srcs) = query db eng fx (enhanced_query msg chat_context) salutation None;
          (mtype, answer') =
            (if conf \<ge> 75 / 100 then (lit ''faq_answer_high_confidence'', answer)
             else if conf \<ge> 65 / 100 then (lit ''faq_answer'', answer)
             else (lit ''low_confidence_answer'', answer @ low_confidence_hint))
      in \<lparr>response = answer', message_type = mtype, confidence = conf, sources = srcs,
          category = lit ''general'', requires_followup = None\<rparr>)"

text \<open>
  \<^verbatim>\<open>_handle_student_query\<close>. The formatting model is the one call in the handlers that can
  raise past the handler; the exception is the left summand. \<open>is_fees\<close> and \<open>is_academic\<close>
  are the two sub-intent tests on the extracted question.
\<close>

datatype exn = GenerationError

definition is_fees :: "unicode_tables \<Rightarrow> ustr \<Rightarrow> bool" where
  "is_fees db question =
     any_in (map lit [''fee'', ''payment'', ''invoice'', ''due'', ''balance'', ''pay''])
       (str_lower db question)"

definition is_academic :: "unicode_tables \<Rightarrow> ustr \<Rightarrow> bool" where
  "is_academic db question =
     any_in (map lit [''course'', ''grade'', ''mark'', ''enrollment'', ''subject'', ''program''])
       (str_lower db question)"

definition handle_student_query ::
  "unicode_tables \<Rightarrow> keyword_config \<Rightarrow> 'idx rag_engine \<Rightarrow> student_repository
     \<Rightarrow> 'idx call_effects \<Rightarrow> ustr \<Rightarrow> ustr \<Rightarrow> ustr \<Rightarrow> exn + conversation_result" where
  "handle_student_query db kw eng repo fx msg contact_id salutation =
     (let question = extract_question_from_message db kw msg
      in if is_fees db question then
           (case fetch_invoice_data repo contact_id of
              Some invoice_data \<Rightarrow>
                (case formatting fx of
                   None \<Rightarrow> Inl GenerationError
                 | Some r \<Rightarrow>
                     Inr \<lparr>response = r, message_type = lit ''invoice_response'', confidence = 1,
                          sources = [lit ''Student Invoice Database''], category = lit ''fees'',
                          requires_followup = None\<rparr>)
            | None \<Rightarrow>
                (let (answer, conf, srcs) = query db eng fx question salutation None;
                     answer' =
                       (if conf < 65 / 100 then
                          salutation @
                          lit '', I couldn't find invoice details for your account. '' @
                          lit ''Please provide your application number or contact finance support.''
                        else answer)
                 in Inr \<lparr>response = answer', message_type = lit ''fees_general'',
                         confidence = conf, sources = srcs, category = lit ''fees'',
                         requires_followup = None\<rparr>))
         else if is_academic db question then
           (case fetch_academic_data repo contact_id of
              Some academic_data \<Rightarrow>
                (case formatting fx of
                   None \<Rightarrow> Inl GenerationError
                 | Some r \<Rightarrow>
                     Inr \<lparr>response = r, message_type = lit ''academic_response'', confidence = 1,
                          sources = [lit ''Student Academic Database''],
                          category = lit ''academic'', requires_followup = None\<rparr>)
            | None \<Rightarrow>
                Inr \<lparr>response = salutation @
                                 lit '', I couldn't find academic data for your account. '' @
                                 lit ''Please provide your application number.'',
                     message_type = lit ''data_not_found'', confidence = 0, sources = [],
                     category = lit ''academic'', requires_followup = None\<rparr>)
         else Inr (handle_faq_query db eng fx question salutation None))"

definition error_result :: "ustr \<Rightarrow> conversation_result" where
  "error_result salutation =
     \<lparr>response = salutation @ lit '', I encountered an error. Please try again.'',
      message_type = lit ''error'', confidence = 0, sources = [], category = lit ''error'',
      requires_followup = None\<rparr>"

text \<open>
  \<^verbatim>\<open>MessageProcessor.process_text_message\<close>: the message is stripped, then the tests are
  made in the order of the source; an exception from a handler gives the error result.
\<close>

definition process_text_message ::
  "unicode_tables \<Rightarrow> keyword_config \<Rightarrow> 'idx rag_engine \<Rightarrow> student_repository
     \<Rightarrow> 'idx call_effects \<Rightarrow> ustr \<Rightarrow> ustr \<Rightarrow> ustr \<Rightarrow> ustr \<Rightarrow> (ustr \<times> ustr) list option
     \<Rightarrow> conversation_result" where
  "process_text_message db kw eng repo fx msg contact_id contact_name salutation chat_context =
     (let message_clean = str_strip msg
      in if is_pure_greeting db kw message_clean then handle_greeting fx salutation
         else if is_satisfied_response db kw message_clean then
           handle_acknowledgment fx salutation
         else if is_paypal_query db kw message_clean then handle_paypal_query salutation
         else if is_publication_query db kw message_clean then
           handle_publication_query db eng fx salutation message_clean
         else if is_remittance_query db kw message_clean then handle_remittance_query salutation
         else if is_student_specific_query db message_clean then
           (case handle_student_query db kw eng repo fx message_clean contact_id salutation of
              Inl e \<Rightarrow> error_result salutation
            | Inr r \<Rightarrow> r)
         else handle_faq_query db eng fx message_clean salutation chat_context)"

section \<open>The rule chain as the specification words it\<close>

text \<open>
  The seven rules in their priority order, the test of each rule on the stripped message,
  the handler each rule stands for and the category each rule reports. These follow the
  specification; they are compared with \<^const>\<open>process_text_message\<close> below.
\<close>

datatype rule =
  Greeting | Acknowledgment | PayPal | Publication | Remittance | StudentSpecific | GeneralFAQ

definition rule_order :: "rule list" where
  "rule_order = [Greeting, Acknowledgment, PayPal, Publication, Remittance, StudentSpecific,
                 GeneralFAQ]"

fun rule_matches :: "unicode_tables \<Rightarrow> keyword_config \<Rightarrow> rule \<Rightarrow> ustr \<Rightarrow> bool" where
  "rule_matches db kw Greeting m = is_pure_greeting db kw m"
| "rule_matches db kw Acknowledgment m = is_satisfied_response db kw m"
| "rule_matches db kw PayPal m = is_paypal_query db kw m"
| "rule_matches db kw Publication m = is_publication_query db kw m"
| "rule_matches db kw Remittance m = is_remittance_query db kw m"
| "rule_matches db kw StudentSpecific m = is_student_specific_query db m"
| "rule_matches db kw GeneralFAQ m = True"

fun run_rule ::
  "rule \<Rightarrow> unicode_tables \<Rightarrow> keyword_config \<Rightarrow> 'idx rag_engine \<Rightarrow> student_repository
     \<Rightarrow> 'idx call_effects \<Rightarrow> ustr \<Rightarrow> ustr \<Rightarrow> ustr \<Rightarrow> (ustr \<times> ustr) list option
     \<Rightarrow> conversation_result" where
  "run_rule Greeting db kw eng repo fx m cid sal ctx = handle_greeting fx sal"
| "run_rule Acknowledgment db kw eng repo fx m cid sal ctx = handle_acknowledgment fx sal"
| "run_rule PayPal db kw eng repo fx m cid sal ctx = handle_paypal_query sal"
| "run_rule Publication db kw eng repo fx m cid sal ctx =
     handle_publication_query db eng fx sal m"
| "run_rule Remittance db kw eng repo fx m cid sal ctx = handle_remittance_query sal"
| "run_rule StudentSpecific db kw eng repo fx m cid sal ctx =
     (case handle_student_query db kw eng repo fx m cid sal of
        Inl e \<Rightarrow> error_result sal | Inr r \<Rightarrow> r)"
| "run_rule GeneralFAQ db kw eng repo fx m cid sal ctx = handle_faq_query db eng fx m sal ctx"

text \<open>The first rule of a list that matches.\<close>

definition first_match ::
  "unicode_tables \<Rightarrow> keyword_config \<Rightarrow> ustr \<Rightarrow> rule list \<Rightarrow> rule option" where
  "first_match db kw m rs = find (\<lambda>r. rule_matches db kw r m) rs"

text \<open>
  The category of the student-specific rule: the fees sub-intent is tested before the
  academic one on the extracted question, neither gives the general FAQ; when a record
  exists and formatting it raises, the pipeline reports the error category.
\<close>

definition student_category ::
  "unicode_tables \<Rightarrow> keyword_config \<Rightarrow> student_repository \<Rightarrow> 'idx call_effects
     \<Rightarrow> ustr \<Rightarrow> ustr \<Rightarrow> ustr" where
  "student_category db kw repo fx m cid =
     (let question = extract_question_from_message db kw m
      in if is_fees db question then
           (if fetch_invoice_data repo cid \<noteq> None \<and> formatting fx = None
            then lit ''error'' else lit ''fees'')
         else if is_academic db question then
           (if fetch_academic_data repo cid \<noteq> None \<and> formatting fx = None
            then lit ''error'' else lit ''academic'')
         else lit ''general'')"

fun rule_category ::
  "rule \<Rightarrow> unicode_tables \<Rightarrow> keyword_config \<Rightarrow> student_repository \<Rightarrow> 'idx call_effects
     \<Rightarrow> ustr \<Rightarrow> ustr \<Rightarrow> ustr" where
  "rule_category Greeting db kw repo fx m cid = lit ''greeting''"
| "rule_category Acknowledgment db kw repo fx m cid = lit ''post_interaction''"
| "rule_category PayPal db kw repo fx m cid = lit ''payment''"
| "rule_category Publication db kw repo fx m cid = lit ''publication''"
| "rule_category Remittance db kw repo fx m cid = lit ''finance''"
| "rule_category StudentSpecific db kw repo fx m cid = student_category db kw repo fx m cid"
| "rule_category GeneralFAQ db kw repo fx m cid = lit ''general''"

section \<open>Concrete inputs\<close>

text \<open>
  A small knowledge base of two chunks. The store of the example engine is the list of
  chunks itself. In the example calls the threshold search returns the chunks whose text
  shares the word \<^verbatim>\<open>publish\<close> with the question and the plain search returns all chunks.
\<close>

definition chunk_a :: doc where
  "chunk_a = \<lparr>page_content = lit ''Question: How do I publish an article?'',
              metadata = [(lit ''question'', lit ''How do I publish an article?''),
                          (lit ''category'', lit ''research''), (lit ''interface'', lit ''cms'')]\<rparr>"

definition chunk_b :: doc where
  "chunk_b = \<lparr>page_content = lit ''Question: What is the refund policy?'',
              metadata = [(lit ''question'', lit ''What is the refund policy?''),
                          (lit ''category'', lit ''finance''), (lit ''interface'', lit ''lms'')]\<rparr>"

definition example_engine :: "doc list rag_engine" where
  "example_engine = \<lparr>vector_store = Some [chunk_a, chunk_b], set_order = length\<rparr>"

definition no_records :: student_repository where
  "no_records = \<lparr>fetch_invoice_data = (\<lambda>_. None), fetch_academic_data = (\<lambda>_. None)\<rparr>"

definition all_calls_succeed :: "doc list call_effects" where
  "all_calls_succeed =
     \<lparr>get_relevant_documents =
        (\<lambda>vs q. filter (\<lambda>d. str_contains (lit ''publish'') (str_lower ascii_tables q) \<and>
                             str_contains (lit ''publish'') (page_content d)) vs),
      qa_source_documents = (\<lambda>vs q. vs),
      retrieval_raises = False,
      generation = Some (lit ''Please use the e-journal portal.''),
      choice = 0,
      formatting = Some (lit ''Your balance is 100.'')\<rparr>"

definition generation_fails :: "doc list call_effects" where
  "generation_fails = all_calls_succeed\<lparr>generation := None\<rparr>"

section \<open>Properties of the lifecycle manager\<close>

subsection \<open>The bounded log\<close>

lemma logs_of_add_bot_log:
  "logs_of (add_bot_log s bn msg lvl now) bn =
     (let ls = logs_of s bn @ [\<lparr>timestamp = now, level = lvl, message = msg\<rparr>]
      in if length ls > 50 then tl ls else ls)"
  by (auto simp: add_bot_log_def logs_of_def getitem_def default_status_def Let_def
      split: option.splits)

lemma logs_of_add_bot_log_other:
  "b \<noteq> bn \<Longrightarrow> logs_of (add_bot_log s bn msg lvl now) b = logs_of s b"
  by (auto simp: add_bot_log_def logs_of_def getitem_def Let_def split: option.splits)

lemma add_bot_log_keeps_bound:
  assumes "\<And>b. length (logs_of s b) \<le> 50"
  shows "length (logs_of (add_bot_log s bn msg lvl now) b) \<le> 50"
proof (cases "b = bn")
  case True
  with assms[of bn] show ?thesis by (simp add: logs_of_add_bot_log Let_def)
next
  case False
  with assms[of b] show ?thesis by (simp add: logs_of_add_bot_log_other)
qed

lemma add_bot_logs_keep_bound:
  "(\<forall>b. length (logs_of s b) \<le> 50) \<Longrightarrow> length (logs_of (add_bot_logs s cs) b) \<le> 50"
proof (induction cs arbitrary: s)
  case Nil
  then show ?case by simp
next
  case (Cons c cs)
  obtain bn msg lvl now where c: "c = (bn, msg, lvl, now)"
    by (cases c) auto
  have "\<forall>b. length (logs_of (add_bot_log s bn msg lvl now) b) \<le> 50"
    using Cons.prems add_bot_log_keeps_bound by blast
  from Cons.IH[OF this] show ?case by (simp add: c)
qed

lemma logs_of_init: "logs_of BotManager_init b = []"
  by (simp add: logs_of_def BotManager_init_def)

text \<open>
  Claim C8. Starting from a fresh manager, after any sequence of \<^verbatim>\<open>add_bot_log\<close> calls every
  bot's log holds at most 50 entries; and when a log already holds 50 entries, one more call
  drops exactly the oldest entry (the head) and keeps the others, in order, followed by the
  new entry.
\<close>

theorem add_bot_log_bounded:
  "length (logs_of (add_bot_logs BotManager_init cs) b) \<le> 50 \<and>
   (length (logs_of s bn) = 50 \<longrightarrow>
      logs_of (add_bot_log s bn msg lvl now) bn =
        tl (logs_of s bn) @ [\<lparr>timestamp = now, level = lvl, message = msg\<rparr>])"
proof
  show "length (logs_of (add_bot_logs BotManager_init cs) b) \<le> 50"
    by (rule add_bot_logs_keep_bound) (simp add: logs_of_init)
next
  show "length (logs_of s bn) = 50 \<longrightarrow>
      logs_of (add_bot_log s bn msg lvl now) bn =
        tl (logs_of s bn) @ [\<lparr>timestamp = now, level = lvl, message = msg\<rparr>]"
    by (cases "logs_of s bn") (auto simp: logs_of_add_bot_log Let_def)
qed

theorem add_bot_log_bounded_witness:
  "length (logs_of (add_bot_logs BotManager_init fifty_calls) ''A'') = 50 \<and>
   map timestamp
     (logs_of (add_bot_log (add_bot_logs BotManager_init fifty_calls) ''A'' ''x'' ''info'' 50) ''A'')
     = [1..<51]"
proof -
  let ?s = "add_bot_logs BotManager_init fifty_calls"
  have h: "length (logs_of ?s ''A'') = 50"
    by code_simp
  have t: "map timestamp (tl (logs_of ?s ''A'') @
             [\<lparr>timestamp = 50, level = ''info'', message = ''x''\<rparr>]) = [1..<51]"
    by code_simp
  from add_bot_log_bounded[of "[]" "''A''" ?s "''A''" "''x''" "''info''" 50] h
  have "logs_of (add_bot_log ?s ''A'' ''x'' ''info'' 50) ''A'' =
          tl (logs_of ?s ''A'') @ [\<lparr>timestamp = 50, level = ''info'', message = ''x''\<rparr>]"
    by blast
  with h t show ?thesis by simp
qed

subsection \<open>Unknown identities\<close>

text \<open>
  Claim C10. For a bot name without a status record: \<^verbatim>\<open>get_bot_status\<close> returns the empty
  dictionary and leaves the manager as it was; \<^verbatim>\<open>add_bot_log\<close>, \<^verbatim>\<open>update_bot_status\<close> and
  \<^verbatim>\<open>increment_processed_count\<close> each insert the default record (status \<^verbatim>\<open>Stopped\<close>, counters
  zero, no log) and apply their own write to it, and the name is then a key of
  \<^verbatim>\<open>get_all_statuses\<close>. None of the operations has an error result.
\<close>

theorem unknown_identity_default_record:
  assumes "bot_statuses s bn = None"
  shows "get_bot_status s bn = (None, s) \<and>
         fst (getitem (bot_statuses s) bn) = default_status \<and>
         status default_status = ''Stopped'' \<and> processed_count default_status = 0 \<and>
         unread_count default_status = 0 \<and> logs default_status = [] \<and>
         get_all_statuses (add_bot_log s bn msg lvl now) bn =
           Some (default_status\<lparr>logs := [\<lparr>timestamp = now, level = lvl, message = msg\<rparr>]\<rparr>) \<and>
         get_all_statuses (update_bot_status s bn new_status None) bn =
           Some (default_status\<lparr>status := new_status\<rparr>) \<and>
         get_all_statuses (update_bot_status s bn new_status (Some u)) bn =
           Some (default_status\<lparr>status := new_status, unread_count := u\<rparr>) \<and>
         get_all_statuses (increment_processed_count s bn) bn =
           Some (default_status\<lparr>processed_count := 1\<rparr>)"
  using assms
  by (simp add: get_bot_status_def get_all_statuses_def add_bot_log_def update_bot_status_def
      increment_processed_count_def getitem_def Let_def default_status_def)

theorem unknown_identity_default_record_witness:
  "get_bot_status BotManager_init ''ghost'' = (None, BotManager_init) \<and>
   get_all_statuses (increment_processed_count BotManager_init ''ghost'') ''ghost'' =
     Some (default_status\<lparr>processed_count := 1\<rparr>) \<and>
   get_all_statuses (update_bot_status BotManager_init ''ghost'' ''Idle'' (Some 3)) ''ghost'' =
     Some (default_status\<lparr>status := ''Idle'', unread_count := 3\<rparr>) \<and>
   get_all_statuses (add_bot_log BotManager_init ''ghost'' ''hello'' ''info'' 7) ''ghost'' =
     Some (default_status\<lparr>logs := [\<lparr>timestamp = 7, level = ''info'', message = ''hello''\<rparr>]\<rparr>)"
proof -
  have h: "bot_statuses BotManager_init ''ghost'' = None"
    by (simp add: BotManager_init_def)
  from unknown_identity_default_record[OF h, of "''hello''" "''info''" 7 "''Idle''" 3]
  show ?thesis by blast
qed

subsection \<open>Stopping a bot\<close>

lemma join_alive_unchanged: "join s t timeout now d = (True, s') \<Longrightarrow> s' = s"
  by (auto simp: join_def split: option.splits if_splits)

lemma join_alive_iff:
  "fst (join s t timeout now d) \<longleftrightarrow>
     t < length (workers s) \<and> thread_alive (workers s ! t) \<and> (\<forall>x. d = Some x \<longrightarrow> timeout < x)"
  by (auto simp: join_def split: option.splits)

lemma set_event_fields:
  "bots (set_event s e) = bots s" "bot_threads (set_event s e) = bot_threads s"
  "bot_statuses (set_event s e) = bot_statuses s" "workers (set_event s e) = workers s"
  by (simp_all add: set_event_def)

lemma signalled_fields:
  "bots (signalled s bn) = bots s" "bot_threads (signalled s bn) = bot_threads s"
  "bot_statuses (signalled s bn) = bot_statuses s" "workers (signalled s bn) = workers s"
  by (simp_all add: signalled_def set_event_fields split: option.splits)

lemma stop_bot_unknown: "bots s bn = None \<Longrightarrow> stop_bot s bn timeout now d = (False, s)"
  by (simp add: stop_bot_def)

lemma stop_bot_known:
  "bots s bn = Some b \<Longrightarrow>
   stop_bot s bn timeout now d =
     (let s1 = signalled s bn;
          r = (case bot_threads s1 bn of None \<Rightarrow> (False, s1)
               | Some t \<Rightarrow> join s1 t timeout now d)
      in if fst r then (False, snd r)
         else let g = getitem (bot_statuses (snd r)) bn
              in (True, (snd r)\<lparr>bot_statuses :=
                                  (snd g)(bn \<mapsto> (fst g)\<lparr>status := ''Stopped'', stop_time := Some now\<rparr>),
                                bots := (bots (snd r))(bn := None),
                                bot_threads := (bot_threads (snd r))(bn := None)\<rparr>))"
  by (simp add: stop_bot_def signalled_def Let_def split: prod.splits)

lemma stop_bot_timeout:
  assumes "bots s bn = Some b" "bot_threads s bn = Some t" "t < length (workers s)"
    "thread_alive (workers s ! t)" "\<forall>x. d = Some x \<longrightarrow> timeout < x"
  shows "stop_bot s bn timeout now d = (False, signalled s bn)"
proof -
  have "fst (join (signalled s bn) t timeout now d)"
    using assms by (simp add: join_alive_iff signalled_fields)
  then obtain s' where j: "join (signalled s bn) t timeout now d = (True, s')"
    by (cases "join (signalled s bn) t timeout now d") auto
  then have "s' = signalled s bn" by (rule join_alive_unchanged)
  with j assms show ?thesis by (simp add: stop_bot_known signalled_fields)
qed

lemma stop_bot_failure:
  assumes "stop_bot s bn timeout now d = (False, s')"
  shows "bots s' = bots s \<and> bot_threads s' = bot_threads s \<and> bot_statuses s' = bot_statuses s
         \<and> workers s' = workers s"
proof (cases "bots s bn")
  case None
  with assms show ?thesis by (simp add: stop_bot_unknown)
next
  case (Some b)
  show ?thesis
  proof (cases "bot_threads s bn")
    case None
    with Some assms show ?thesis by (simp add: stop_bot_known Let_def signalled_fields)
  next
    case (Some t)
    obtain a s2 where j: "join (signalled s bn) t timeout now d = (a, s2)"
      by (cases "join (signalled s bn) t timeout now d") auto
    with assms \<open>bots s bn = Some b\<close> Some have a: "a" and s': "s' = s2"
      by (auto simp: stop_bot_known Let_def signalled_fields split: if_splits)
    from j a have "s2 = signalled s bn" by (auto dest: join_alive_unchanged)
    with s' show ?thesis by (simp add: signalled_fields)
  qed
qed

lemma stop_bot_success:
  assumes "stop_bot s bn timeout now d = (True, s')"
  shows "bots s' bn = None \<and> bot_threads s' bn = None \<and>
         (\<exists>st. bot_statuses s' bn = Some st \<and> status st = ''Stopped'' \<and> stop_time st = Some now)"
proof (cases "bots s bn")
  case None
  with assms show ?thesis by (simp add: stop_bot_unknown)
next
  case (Some b)
  with assms show ?thesis
    by (auto simp: stop_bot_known Let_def split: if_splits)
qed

text \<open>
  Claim C5. \<^verbatim>\<open>stop_bot\<close> returns \<^verbatim>\<open>False\<close> and changes nothing when the name is not a key of
  \<^verbatim>\<open>bots\<close>. When the registered thread is alive and does not leave within the timeout, the
  call returns \<^verbatim>\<open>False\<close> after setting the stop event and nothing else. Whenever the call
  returns \<^verbatim>\<open>False\<close>, the bot entry, the thread handle and the status records are what they
  were. Whenever it returns \<^verbatim>\<open>True\<close>, the status is \<^verbatim>\<open>Stopped\<close>, the stop time is the clock
  reading, and the bot and thread handles of that name are gone.
\<close>

theorem stop_bot_contract:
  "(bots s bn = None \<longrightarrow> stop_bot s bn timeout now d = (False, s)) \<and>
   (bots s bn = Some b \<and> bot_threads s bn = Some t \<and> t < length (workers s) \<and>
      thread_alive (workers s ! t) \<and> (\<forall>x. d = Some x \<longrightarrow> timeout < x) \<longrightarrow>
        stop_bot s bn timeout now d = (False, signalled s bn)) \<and>
   (\<forall>s'. stop_bot s bn timeout now d = (False, s') \<longrightarrow>
        bots s' = bots s \<and> bot_threads s' = bot_threads s \<and>
        bot_statuses s' = bot_statuses s \<and> workers s' = workers s) \<and>
   (\<forall>s'. stop_bot s bn timeout now d = (True, s') \<longrightarrow>
        bots s' bn = None \<and> bot_threads s' bn = None \<and>
        (\<exists>st. bot_statuses s' bn = Some st \<and> status st = ''Stopped'' \<and>
              stop_time st = Some now))"
proof (intro conjI impI allI)
  assume "bots s bn = None"
  then show "stop_bot s bn timeout now d = (False, s)"
    by (rule stop_bot_unknown)
next
  assume "bots s bn = Some b \<and> bot_threads s bn = Some t \<and> t < length (workers s) \<and>
      thread_alive (workers s ! t) \<and> (\<forall>x. d = Some x \<longrightarrow> timeout < x)"
  then show "stop_bot s bn timeout now d = (False, signalled s bn)"
    using stop_bot_timeout[of s bn b t d timeout now] by blast
next
  fix s' assume f: "stop_bot s bn timeout now d = (False, s')"
  from stop_bot_failure[OF f]
  show "bots s' = bots s" "bot_threads s' = bot_threads s"
    "bot_statuses s' = bot_statuses s" "workers s' = workers s"
    by simp_all
next
  fix s' assume t: "stop_bot s bn timeout now d = (True, s')"
  from stop_bot_success[OF t]
  show "bots s' bn = None" "bot_threads s' bn = None"
    "\<exists>st. bot_statuses s' bn = Some st \<and> status st = ''Stopped'' \<and> stop_time st = Some now"
    by simp_all
qed

theorem stop_bot_contract_witness:
  "stop_bot BotManager_init ''A'' 30 7 None = (False, BotManager_init) \<and>
   stop_bot started_A ''A'' 30 7 (Some 31) = (False, signalled started_A ''A'') \<and>
   bots (signalled started_A ''A'') ''A'' = Some 0 \<and>
   bot_threads (signalled started_A ''A'') ''A'' = Some 0 \<and>
   bot_statuses (signalled started_A ''A'') = bot_statuses started_A \<and>
   fst (stop_bot started_A ''A'' 30 7 (Some 2)) \<and>
   bots (snd (stop_bot started_A ''A'' 30 7 (Some 2))) ''A'' = None \<and>
   bot_threads (snd (stop_bot started_A ''A'' 30 7 (Some 2))) ''A'' = None \<and>
   map_option status (bot_statuses (snd (stop_bot started_A ''A'' 30 7 (Some 2))) ''A'')
     = Some ''Stopped'' \<and>
   map_option stop_time (bot_statuses (snd (stop_bot started_A ''A'' 30 7 (Some 2))) ''A'')
     = Some (Some 7)"
proof -
  have sA: "started_A =
      \<lparr>bots = [''A'' \<mapsto> 0], bot_threads = [''A'' \<mapsto> 0], stop_events = [''A'' \<mapsto> 0],
       bot_statuses = [''A'' \<mapsto> default_status\<lparr>name := ''A'', status := ''Starting'',
                                  start_time := Some 0, stop_time := None, processed_count := 0\<rparr>],
       events = [False],
       workers = [\<lparr>bot_name = ''A'', user_data_path = None, stop_event = 0,
                   driver = False, thread_alive = True\<rparr>]\<rparr>"
    by (simp add: started_A_def start_bot_def BotManager_init_def getitem_def Let_def)
  have h0: "bots BotManager_init ''A'' = None"
    by (simp add: BotManager_init_def)
  have h1: "bots started_A ''A'' = Some 0 \<and> bot_threads started_A ''A'' = Some 0 \<and>
      0 < length (workers started_A) \<and> thread_alive (workers started_A ! 0) \<and>
      (\<forall>x. Some (31::nat) = Some x \<longrightarrow> (30::nat) < x)"
    by (simp add: sA)
  have h2: "fst (stop_bot started_A ''A'' 30 7 (Some 2))"
    by (simp add: sA stop_bot_def set_event_def join_def worker_exit_def getitem_def Let_def)
  then obtain s' where s': "stop_bot started_A ''A'' 30 7 (Some 2) = (True, s')"
    by (cases "stop_bot started_A ''A'' 30 7 (Some 2)") auto
  note c0 = stop_bot_contract[where s = BotManager_init and bn = "''A''" and timeout = 30
      and now = 7 and d = None]
  note c1 = stop_bot_contract[where s = started_A and bn = "''A''" and timeout = 30
      and now = 7 and d = "Some 31" and b = 0 and t = 0]
  note c2 = stop_bot_contract[where s = started_A and bn = "''A''" and timeout = 30
      and now = 7 and d = "Some 2"]
  from c0 h0 have r0: "stop_bot BotManager_init ''A'' 30 7 None = (False, BotManager_init)"
    by blast
  from c1 h1 have r1: "stop_bot started_A ''A'' 30 7 (Some 31) = (False, signalled started_A ''A'')"
    by blast
  with c1 have r1': "bots (signalled started_A ''A'') = bots started_A \<and>
      bot_threads (signalled started_A ''A'') = bot_threads started_A \<and>
      bot_statuses (signalled started_A ''A'') = bot_statuses started_A"
    by blast
  from c2 s' have r2: "bots s' ''A'' = None \<and> bot_threads s' ''A'' = None \<and>
      (\<exists>st. bot_statuses s' ''A'' = Some st \<and> status st = ''Stopped'' \<and> stop_time st = Some 7)"
    by blast
  from r0 r1 r1' r2 h1 h2 s' show ?thesis by auto
qed

subsection \<open>Starting a bot\<close>

text \<open>
  The guard of \<^verbatim>\<open>start_bot\<close>: when the registered bot reports \<^verbatim>\<open>is_running()\<close>, the call
  returns \<^verbatim>\<open>False\<close> and the manager is unchanged.
\<close>

lemma start_bot_running_noop:
  "bots s bn = Some b \<Longrightarrow> is_running s b \<Longrightarrow> start_bot s bn udp now ctor_raises = (False, s)"
  by (simp add: start_bot_def)

lemma start_bot_fresh_not_running:
  "is_running (snd (start_bot BotManager_init bn udp now False)) 0 = False"
  by (simp add: start_bot_def BotManager_init_def getitem_def Let_def is_running_def)

text \<open>
  Claim C4. At most one live worker per bot name, and a second \<^verbatim>\<open>start_bot\<close> of a running
  bot returns \<^verbatim>\<open>False\<close> without any effect. The guard of \<^verbatim>\<open>start_bot\<close> asks the bot object
  \<^verbatim>\<open>is_running()\<close>, which is false until the worker thread has created its driver. Two calls
  in a row for the name \<^verbatim>\<open>A\<close> on a fresh manager: the first returns \<^verbatim>\<open>True\<close> and the manager's
  own \<^verbatim>\<open>is_bot_running\<close> reports the live thread; the second passes the guard, returns
  \<^verbatim>\<open>True\<close> too, and two live workers exist for \<^verbatim>\<open>A\<close>. The registry then holds the second
  stop event only, so the first worker (still polling event 0) can no longer be signalled.
\<close>

theorem start_bot_twice_two_live_workers:
  "(let (r1, s1) = start_bot BotManager_init ''A'' udp 0 False;
        (r2, s2) = start_bot s1 ''A'' udp 1 False
    in r1 \<and> is_bot_running s1 ''A'' \<and> r2 \<and> s2 \<noteq> s1 \<and>
       length (live_workers s2 ''A'') = 2 \<and>
       map stop_event (live_workers s2 ''A'') = [0, 1] \<and>
       stop_events s2 ''A'' = Some 1 \<and> bot_threads s2 ''A'' = Some 1)"
proof -
  have "workers (snd (start_bot (snd (start_bot BotManager_init ''A'' udp 0 False)) ''A'' udp 1 False))
        \<noteq> workers (snd (start_bot BotManager_init ''A'' udp 0 False))"
    by (simp add: start_bot_def BotManager_init_def getitem_def Let_def is_running_def)
  then have "snd (start_bot (snd (start_bot BotManager_init ''A'' udp 0 False)) ''A'' udp 1 False)
        \<noteq> snd (start_bot BotManager_init ''A'' udp 0 False)"
    by metis
  moreover have "(let (r1, s1) = start_bot BotManager_init ''A'' udp 0 False;
        (r2, s2) = start_bot s1 ''A'' udp 1 False
    in r1 \<and> is_bot_running s1 ''A'' \<and> r2 \<and>
       length (live_workers s2 ''A'') = 2 \<and>
       map stop_event (live_workers s2 ''A'') = [0, 1] \<and>
       stop_events s2 ''A'' = Some 1 \<and> bot_threads s2 ''A'' = Some 1)"
    by (simp add: start_bot_def BotManager_init_def getitem_def Let_def is_running_def
        is_bot_running_def live_workers_def is_set_def)
  ultimately show ?thesis
    by (simp add: case_prod_beta Let_def)
qed


section \<open>Properties of the string functions\<close>






section \<open>Properties of the classifier and the pipeline\<close>

subsection \<open>The rule chain\<close>

lemma find_first:
  "(\<forall>x\<in>set pre. \<not> P x) \<Longrightarrow> P r \<Longrightarrow> find P (pre @ r # post) = Some r"
  by (induction pre) auto

lemma process_first_match:
  "\<exists>r. first_match db kw (str_strip msg) rule_order = Some r \<and>
       process_text_message db kw eng repo fx msg cid cn sal ctx =
         run_rule r db kw eng repo fx (str_strip msg) cid sal ctx"
  by (simp add: first_match_def rule_order_def process_text_message_def Let_def)

lemma process_rule:
  assumes "rule_order = pre @ r # post"
    "\<forall>r'\<in>set pre. \<not> rule_matches db kw r' (str_strip msg)"
    "rule_matches db kw r (str_strip msg)"
  shows "process_text_message db kw eng repo fx msg cid cn sal ctx =
         run_rule r db kw eng repo fx (str_strip msg) cid sal ctx"
proof -
  have "first_match db kw (str_strip msg) rule_order = Some r"
    unfolding first_match_def assms(1) using assms(2,3) by (rule find_first)
  with process_first_match[of db kw msg eng repo fx cid cn sal ctx] show ?thesis by simp
qed

lemma faq_category: "category (handle_faq_query db eng fx m sal ctx) = lit ''general''"
  by (simp add: handle_faq_query_def Let_def split: prod.splits)

lemma student_rule_category:
  "category (case handle_student_query db kw eng repo fx m cid sal of
        Inl e \<Rightarrow> error_result sal | Inr r \<Rightarrow> r) = student_category db kw repo fx m cid"
  by (auto simp: handle_student_query_def student_category_def Let_def error_result_def
      faq_category split: option.splits prod.splits)

lemma run_rule_category:
  "category (run_rule r db kw eng repo fx m cid sal ctx) = rule_category r db kw repo fx m cid"
proof (cases r)
  case StudentSpecific
  then show ?thesis
    using student_rule_category[where db=db and kw=kw and eng=eng and repo=repo and fx=fx
        and m=m and cid=cid and sal=sal]
    by simp
qed (simp_all add: handle_greeting_def handle_acknowledgment_def handle_paypal_query_def
      handle_publication_query_def handle_remittance_query_def faq_category Let_def
      split: prod.splits)

lemma paypal_after_greeting_and_acknowledgment:
  assumes "\<not> is_pure_greeting db kw (str_strip msg)"
    "\<not> is_satisfied_response db kw (str_strip msg)"
    "is_paypal_query db kw (str_strip msg)"
  shows "process_text_message db kw eng repo fx msg cid cn sal ctx = handle_paypal_query sal"
  using assms by (simp add: process_text_message_def)

text \<open>
  Claim C1, as the code has it. The message is stripped and the seven rules are tried in
  the order greeting, acknowledgment, PayPal, publication, remittance, student-specific,
  general FAQ. Some rule always matches; the pipeline does what the first matching rule
  stands for, and the category of the result is the category of that rule: greeting,
  post_interaction, payment, publication, finance, the sub-intent of a student-specific
  message (fees, academic, general, or error when formatting an existing record raises),
  general. The result is fixed by the rules up to the first match: whenever a rule matches
  and none of the rules before it does, its handler runs and its category is reported,
  whatever the later rules would say. A message that matches a PayPal phrase and is
  neither a pure greeting nor an acknowledgment is classified PayPal, also when it matches
  a publication phrase.
\<close>

theorem classifier_rule_chain:
  "(\<exists>r. first_match db kw (str_strip msg) rule_order = Some r \<and>
        process_text_message db kw eng repo fx msg cid cn sal ctx =
          run_rule r db kw eng repo fx (str_strip msg) cid sal ctx \<and>
        category (process_text_message db kw eng repo fx msg cid cn sal ctx) =
          rule_category r db kw repo fx (str_strip msg) cid) \<and>
   (\<forall>pre r post.
        rule_order = pre @ r # post \<and>
        (\<forall>r'\<in>set pre. \<not> rule_matches db kw r' (str_strip msg)) \<and>
        rule_matches db kw r (str_strip msg) \<longrightarrow>
          process_text_message db kw eng repo fx msg cid cn sal ctx =
            run_rule r db kw eng repo fx (str_strip msg) cid sal ctx \<and>
          category (process_text_message db kw eng repo fx msg cid cn sal ctx) =
            rule_category r db kw repo fx (str_strip msg) cid) \<and>
   (\<not> is_pure_greeting db kw (str_strip msg) \<and>
    \<not> is_satisfied_response db kw (str_strip msg) \<and>
    is_paypal_query db kw (str_strip msg) \<longrightarrow>
      category (process_text_message db kw eng repo fx msg cid cn sal ctx) = lit ''payment'' \<and>
      message_type (process_text_message db kw eng repo fx msg cid cn sal ctx)
        = lit ''paypal_query'')"
proof (intro conjI allI impI)
  from process_first_match[of db kw msg eng repo fx cid cn sal ctx]
  obtain r where r: "first_match db kw (str_strip msg) rule_order = Some r"
    "process_text_message db kw eng repo fx msg cid cn sal ctx =
       run_rule r db kw eng repo fx (str_strip msg) cid sal ctx"
    by blast
  have "category (run_rule r db kw eng repo fx (str_strip msg) cid sal ctx) =
      rule_category r db kw repo fx (str_strip msg) cid"
    by (rule run_rule_category)
  with r show "\<exists>r. first_match db kw (str_strip msg) rule_order = Some r \<and>
        process_text_message db kw eng repo fx msg cid cn sal ctx =
          run_rule r db kw eng repo fx (str_strip msg) cid sal ctx \<and>
        category (process_text_message db kw eng repo fx msg cid cn sal ctx) =
          rule_category r db kw repo fx (str_strip msg) cid"
    by auto
next
  fix pre r post
  assume a: "rule_order = pre @ r # post \<and>
        (\<forall>r'\<in>set pre. \<not> rule_matches db kw r' (str_strip msg)) \<and>
        rule_matches db kw r (str_strip msg)"
  then show p: "process_text_message db kw eng repo fx msg cid cn sal ctx =
            run_rule r db kw eng repo fx (str_strip msg) cid sal ctx"
    using process_rule[of pre r post db kw msg] by blast
  show "category (process_text_message db kw eng repo fx msg cid cn sal ctx) =
            rule_category r db kw repo fx (str_strip msg) cid"
    unfolding p by (rule run_rule_category)
next
  assume a: "\<not> is_pure_greeting db kw (str_strip msg) \<and>
    \<not> is_satisfied_response db kw (str_strip msg) \<and>
    is_paypal_query db kw (str_strip msg)"
  then have p: "process_text_message db kw eng repo fx msg cid cn sal ctx = handle_paypal_query sal"
    using paypal_after_greeting_and_acknowledgment[of db kw msg] by blast
  show "category (process_text_message db kw eng repo fx msg cid cn sal ctx) = lit ''payment''"
    and "message_type (process_text_message db kw eng repo fx msg cid cn sal ctx)
        = lit ''paypal_query''"
    by (simp_all add: p handle_paypal_query_def)
qed

theorem classifier_rule_chain_witness:
  "is_paypal_query ascii_tables default_keywords (str_strip (lit ''paypal journal'')) \<and>
   is_publication_query ascii_tables default_keywords (str_strip (lit ''paypal journal'')) \<and>
   process_text_message ascii_tables default_keywords example_engine no_records
       all_calls_succeed (lit ''paypal journal'') (lit ''A1'') (lit ''Ann'') (lit ''Student'') None =
     run_rule PayPal ascii_tables default_keywords example_engine no_records all_calls_succeed
       (str_strip (lit ''paypal journal'')) (lit ''A1'') (lit ''Student'') None \<and>
   category (process_text_message ascii_tables default_keywords example_engine no_records
       all_calls_succeed (lit ''paypal journal'') (lit ''A1'') (lit ''Ann'') (lit ''Student'') None)
     = lit ''payment''"
proof -
  have ng: "\<not> is_pure_greeting ascii_tables default_keywords (str_strip (lit ''paypal journal''))"
    by code_simp
  have na: "\<not> is_satisfied_response ascii_tables default_keywords
               (str_strip (lit ''paypal journal''))"
    by code_simp
  have pp: "is_paypal_query ascii_tables default_keywords (str_strip (lit ''paypal journal''))"
    by code_simp
  have pb: "is_publication_query ascii_tables default_keywords
              (str_strip (lit ''paypal journal''))"
    by code_simp
  note c = classifier_rule_chain[where db = ascii_tables and kw = default_keywords
      and msg = "lit ''paypal journal''" and eng = example_engine and repo = no_records
      and fx = all_calls_succeed and cid = "lit ''A1''" and cn = "lit ''Ann''"
      and sal = "lit ''Student''" and ctx = None]
  have hyp: "rule_order = [Greeting, Acknowledgment] @ PayPal #
                 [Publication, Remittance, StudentSpecific, GeneralFAQ] \<and>
      (\<forall>r'\<in>set [Greeting, Acknowledgment].
          \<not> rule_matches ascii_tables default_keywords r' (str_strip (lit ''paypal journal''))) \<and>
      rule_matches ascii_tables default_keywords PayPal (str_strip (lit ''paypal journal''))"
    using ng na pp by (simp add: rule_order_def)
  from c[THEN conjunct2, THEN conjunct1, rule_format, OF hyp]
  have 1: "process_text_message ascii_tables default_keywords example_engine no_records
       all_calls_succeed (lit ''paypal journal'') (lit ''A1'') (lit ''Ann'') (lit ''Student'') None =
     run_rule PayPal ascii_tables default_keywords example_engine no_records all_calls_succeed
       (str_strip (lit ''paypal journal'')) (lit ''A1'') (lit ''Student'') None"
    by blast
  from c ng na pp
  have 2: "category (process_text_message ascii_tables default_keywords example_engine
       no_records all_calls_succeed (lit ''paypal journal'') (lit ''A1'') (lit ''Ann'')
       (lit ''Student'') None) = lit ''payment''"
    by blast
  from 1 2 pp pb show ?thesis by blast
qed

text \<open>
  The last sentence of claim C1 as it is written (every message that matches a PayPal
  phrase and a publication phrase is classified PayPal) fails for the three-word message
  \<^verbatim>\<open>paypal research work\<close> under the built-in keywords: it contains the acknowledgment
  phrase \<^verbatim>\<open>k\<close>, so the acknowledgment rule, which comes first, decides.
\<close>

theorem paypal_and_publication_counterexample:
  "\<not> (is_paypal_query ascii_tables default_keywords (str_strip (lit ''paypal research work'')) \<and>
       is_publication_query ascii_tables default_keywords
         (str_strip (lit ''paypal research work'')) \<longrightarrow>
       category (process_text_message ascii_tables default_keywords example_engine no_records
         all_calls_succeed (lit ''paypal research work'') (lit ''A1'') (lit ''Ann'')
         (lit ''Student'') None) = lit ''payment'')"
proof -
  have "is_paypal_query ascii_tables default_keywords (str_strip (lit ''paypal research work''))"
    by code_simp
  moreover
  have "is_publication_query ascii_tables default_keywords
          (str_strip (lit ''paypal research work''))"
    by code_simp
  moreover
  have "category (process_text_message ascii_tables default_keywords example_engine no_records
         all_calls_succeed (lit ''paypal research work'') (lit ''A1'') (lit ''Ann'')
         (lit ''Student'') None) = lit ''post_interaction''"
    by code_simp
  moreover have "lit ''post_interaction'' \<noteq> lit ''payment''"
    by code_simp
  ultimately show ?thesis by simp
qed

subsection \<open>Pure greetings\<close>


lemma lit_nonempty: "s \<noteq> [] \<Longrightarrow> lit s \<noteq> []"
  by (simp add: lit_def)




section \<open>Properties of the retrieval engine\<close>

lemma confidence_of_mono: "n \<le> m \<Longrightarrow> confidence_of n \<le> confidence_of m"
proof -
  assume "n \<le> m"
  then have "(of_nat n :: rat) / 4 \<le> of_nat m / 4" by (simp add: divide_right_mono)
  then have "min ((of_nat n :: rat) / 4) 1 \<le> min (of_nat m / 4) 1" by (simp add: min_def)
  then show ?thesis by (simp add: confidence_of_def)
qed

lemma confidence_of_bounds: "0 \<le> confidence_of n \<and> confidence_of n \<le> 9 / 10"
  by (simp add: confidence_of_def min_def)

lemma query_no_chunks:
  "vector_store eng = Some vs \<Longrightarrow> \<not> retrieval_raises fx \<Longrightarrow>
   get_relevant_documents fx vs q = [] \<Longrightarrow>
   query db eng fx q sal iface = (could_not_find sal, 0, [])"
  by (simp add: query_def)

lemma query_chunks:
  "vector_store eng = Some vs \<Longrightarrow> \<not> retrieval_raises fx \<Longrightarrow>
   get_relevant_documents fx vs q \<noteq> [] \<Longrightarrow> generation fx = Some a \<Longrightarrow>
   query db eng fx q sal iface =
     (a, confidence_of (length (interface_filter db iface (get_relevant_documents fx vs q))),
      source_questions (set_order eng) (qa_source_documents fx vs q))"
  by (simp add: query_def Let_def)

lemma query_failure:
  "vector_store eng = None \<or> retrieval_raises fx \<or> generation fx = None \<Longrightarrow>
   fst (snd (query db eng fx q sal iface)) = 0 \<and> snd (snd (query db eng fx q sal iface)) = []"
  by (auto simp: query_def query_error_def Let_def split: option.splits)

lemma confidence_in_range:
  "0 \<le> fst (snd (query db eng fx q sal iface)) \<and>
   fst (snd (query db eng fx q sal iface)) \<le> 9 / 10"
  using confidence_of_bounds
  by (auto simp: query_def query_error_def Let_def split: option.splits)

text \<open>
  Claim C2, as the code has it. On an engine whose vector store exists, in a call during
  which neither the retrieval nor the generation raises: when no chunk survives the
  threshold the result is the could-not-find text, which starts with the caller's
  salutation, with confidence 0 and no sources; otherwise the confidence is
  \<open>min (n / 4) 1 * 0.9\<close>, where \<open>n\<close> counts the surviving chunks that also pass the optional
  interface filter. That value is 0 at 0, monotone in \<open>n\<close> and at most 0.9. When the store
  is missing or a call raises, the confidence is 0 and the source list is empty; so the
  confidence of every query lies between 0 and 0.9.
\<close>

theorem query_confidence:
  "(vector_store eng = Some vs \<and> \<not> retrieval_raises fx \<and>
      get_relevant_documents fx vs q = [] \<longrightarrow>
        query db eng fx q sal iface = (could_not_find sal, 0, []) \<and>
        prefix sal (could_not_find sal)) \<and>
   (vector_store eng = Some vs \<and> \<not> retrieval_raises fx \<and>
      get_relevant_documents fx vs q \<noteq> [] \<and> generation fx \<noteq> None \<longrightarrow>
        fst (snd (query db eng fx q sal iface)) =
          min (of_nat (length (interface_filter db iface (get_relevant_documents fx vs q))) / 4) 1
            * (9 / 10)) \<and>
   (vector_store eng = None \<or> retrieval_raises fx \<or> generation fx = None \<longrightarrow>
        fst (snd (query db eng fx q sal iface)) = 0 \<and>
        snd (snd (query db eng fx q sal iface)) = []) \<and>
   confidence_of 0 = 0 \<and>
   (n \<le> m \<longrightarrow> confidence_of n \<le> confidence_of m) \<and>
   confidence_of n \<le> 9 / 10 \<and>
   0 \<le> fst (snd (query db eng fx q sal iface)) \<and>
   fst (snd (query db eng fx q sal iface)) \<le> 9 / 10"
proof (intro conjI impI)
  assume "vector_store eng = Some vs \<and> \<not> retrieval_raises fx \<and>
      get_relevant_documents fx vs q = []"
  then show "query db eng fx q sal iface = (could_not_find sal, 0, [])"
    using query_no_chunks[of eng vs fx q db sal iface] by blast
next
  show "prefix sal (could_not_find sal)"
    by (simp add: could_not_find_def)
next
  assume a: "vector_store eng = Some vs \<and> \<not> retrieval_raises fx \<and>
      get_relevant_documents fx vs q \<noteq> [] \<and> generation fx \<noteq> None"
  then obtain a' where "generation fx = Some a'" by auto
  with a have "query db eng fx q sal iface =
     (a', confidence_of (length (interface_filter db iface (get_relevant_documents fx vs q))),
      source_questions (set_order eng) (qa_source_documents fx vs q))"
    using query_chunks[of eng vs fx q a' db sal iface] by blast
  then show "fst (snd (query db eng fx q sal iface)) =
          min (of_nat (length (interface_filter db iface (get_relevant_documents fx vs q))) / 4) 1
            * (9 / 10)"
    by (simp add: confidence_of_def)
next
  assume f: "vector_store eng = None \<or> retrieval_raises fx \<or> generation fx = None"
  from query_failure[OF f]
  show "fst (snd (query db eng fx q sal iface)) = 0"
    "snd (snd (query db eng fx q sal iface)) = []"
    by simp_all
next
  show "confidence_of 0 = 0" by (simp add: confidence_of_def)
next
  assume "n \<le> m" then show "confidence_of n \<le> confidence_of m" by (rule confidence_of_mono)
next
  show "confidence_of n \<le> 9 / 10" using confidence_of_bounds by blast
next
  show "0 \<le> fst (snd (query db eng fx q sal iface))" using confidence_in_range by blast
next
  show "fst (snd (query db eng fx q sal iface)) \<le> 9 / 10" using confidence_in_range by blast
qed

theorem query_confidence_witness:
  "query ascii_tables example_engine all_calls_succeed (lit ''what is the refund policy'')
      (lit ''Student'') None = (could_not_find (lit ''Student''), 0, []) \<and>
   fst (snd (query ascii_tables example_engine all_calls_succeed (lit ''how do i publish'')
      (lit ''Student'') None)) = 9 / 40 \<and>
   fst (snd (query ascii_tables example_engine generation_fails (lit ''how do i publish'')
      (lit ''Student'') None)) = 0 \<and>
   confidence_of 1 \<le> confidence_of 2"
proof -
  have vs: "vector_store example_engine = Some [chunk_a, chunk_b]"
    by (simp add: example_engine_def)
  have nr: "\<not> retrieval_raises all_calls_succeed"
    by (simp add: all_calls_succeed_def)
  have g: "generation all_calls_succeed \<noteq> None"
    by (simp add: all_calls_succeed_def)
  have gf: "generation generation_fails = None"
    by (simp add: generation_fails_def)
  have d0: "get_relevant_documents all_calls_succeed [chunk_a, chunk_b]
      (lit ''what is the refund policy'') = []"
    by code_simp
  have d1: "get_relevant_documents all_calls_succeed [chunk_a, chunk_b]
      (lit ''how do i publish'') = [chunk_a]"
    by code_simp
  note c0 = query_confidence[where eng = example_engine and vs = "[chunk_a, chunk_b]"
      and fx = all_calls_succeed and q = "lit ''what is the refund policy''"
      and sal = "lit ''Student''" and iface = None and n = 1 and m = 2 and db = ascii_tables]
  note c1 = query_confidence[where eng = example_engine and vs = "[chunk_a, chunk_b]"
      and fx = all_calls_succeed and q = "lit ''how do i publish''" and sal = "lit ''Student''"
      and iface = None and db = ascii_tables]
  note c2 = query_confidence[where eng = example_engine and vs = "[chunk_a, chunk_b]"
      and fx = generation_fails and q = "lit ''how do i publish''" and sal = "lit ''Student''"
      and iface = None and db = ascii_tables]
  from c0 vs nr d0
  have r0: "query ascii_tables example_engine all_calls_succeed
      (lit ''what is the refund policy'') (lit ''Student'') None
      = (could_not_find (lit ''Student''), 0, [])"
    by blast
  from c0 have r3: "confidence_of 1 \<le> confidence_of 2" by simp
  from c1 vs nr g d1
  have "fst (snd (query ascii_tables example_engine all_calls_succeed (lit ''how do i publish'')
      (lit ''Student'') None)) =
      min (of_nat (length (interface_filter ascii_tables None [chunk_a])) / 4) 1 * (9 / 10)"
    by simp
  then have r1: "fst (snd (query ascii_tables example_engine all_calls_succeed
      (lit ''how do i publish'') (lit ''Student'') None)) = 9 / 40"
    by (simp add: interface_filter_def)
  from c2 gf
  have r2: "fst (snd (query ascii_tables example_engine generation_fails
      (lit ''how do i publish'') (lit ''Student'') None)) = 0"
    by blast
  from r0 r1 r2 r3 show ?thesis by blast
qed

text \<open>
  Claim C2 as it is written gives the confidence \<open>min (n / 4) 1 * 0.9\<close> to every query with
  a surviving chunk. When the generation call raises, the \<^verbatim>\<open>except\<close> branch of the code
  returns confidence 0 although one chunk survived.
\<close>

theorem query_confidence_counterexample:
  "\<not> (get_relevant_documents generation_fails [chunk_a, chunk_b] (lit ''how do i publish'')
        \<noteq> [] \<longrightarrow>
       fst (snd (query ascii_tables example_engine generation_fails (lit ''how do i publish'')
                   (lit ''Student'') None)) =
         min (of_nat (length (get_relevant_documents generation_fails [chunk_a, chunk_b]
                                (lit ''how do i publish''))) / 4) 1 * (9 / 10))"
proof -
  have "get_relevant_documents generation_fails [chunk_a, chunk_b] (lit ''how do i publish'')
      = [chunk_a]"
    by code_simp
  moreover
  have "fst (snd (query ascii_tables example_engine generation_fails (lit ''how do i publish'')
      (lit ''Student'') None)) = 0"
    by code_simp
  ultimately show ?thesis by simp
qed

subsection \<open>Repeated calls\<close>







subsection \<open>Publication queries\<close>

lemma publication_result:
  assumes "\<not> is_pure_greeting db kw (str_strip msg)"
    "\<not> is_satisfied_response db kw (str_strip msg)"
    "\<not> is_paypal_query db kw (str_strip msg)" "is_publication_query db kw (str_strip msg)"
  shows "process_text_message db kw eng repo fx msg cid cn sal ctx =
         handle_publication_query db eng fx sal (str_strip msg)"
  using assms by (simp add: process_text_message_def)

lemma handle_publication_fields:
  "confidence (handle_publication_query db eng fx sal m) = 1 \<and>
   category (handle_publication_query db eng fx sal m) = lit ''publication'' \<and>
   sources (handle_publication_query db eng fx sal m) = snd (snd (query db eng fx m sal None)) \<and>
   response (handle_publication_query db eng fx sal m) =
     publication_contact sal @
       (if fst (snd (query db eng fx m sal None)) \<ge> 65 / 100
        then lit ''\<newline>\<newline>'' @ fst (query db eng fx m sal None) else [])"
  by (simp add: handle_publication_query_def Let_def split: prod.splits)

text \<open>
  Claim C6, as the code has it. For a message that reaches the publication rule (it is no
  pure greeting, no acknowledgment, no PayPal query, and matches a publication phrase) the
  result has category \<^verbatim>\<open>publication\<close> and confidence 1.0, its source list is the source list
  of the secondary FAQ lookup, and the response is the fixed contact text, followed by a
  blank line and the lookup's answer exactly when the lookup's confidence is at least 0.65.
\<close>

theorem publication_query_result:
  assumes "\<not> is_pure_greeting db kw (str_strip msg)"
    "\<not> is_satisfied_response db kw (str_strip msg)"
    "\<not> is_paypal_query db kw (str_strip msg)" "is_publication_query db kw (str_strip msg)"
  shows "category (process_text_message db kw eng repo fx msg cid cn sal ctx)
           = lit ''publication'' \<and>
         confidence (process_text_message db kw eng repo fx msg cid cn sal ctx) = 1 \<and>
         sources (process_text_message db kw eng repo fx msg cid cn sal ctx) =
           snd (snd (query db eng fx (str_strip msg) sal None)) \<and>
         response (process_text_message db kw eng repo fx msg cid cn sal ctx) =
           publication_contact sal @
             (if fst (snd (query db eng fx (str_strip msg) sal None)) \<ge> 65 / 100
              then lit ''\<newline>\<newline>'' @ fst (query db eng fx (str_strip msg) sal None) else []) \<and>
         (response (process_text_message db kw eng repo fx msg cid cn sal ctx) =
            publication_contact sal @ lit ''\<newline>\<newline>'' @
              fst (query db eng fx (str_strip msg) sal None)
          \<longleftrightarrow> fst (snd (query db eng fx (str_strip msg) sal None)) \<ge> 65 / 100)"
  using handle_publication_fields[of db eng fx sal "str_strip msg"]
  by (simp add: publication_result[OF assms] lit_def)

theorem publication_query_result_witness:
  "category (process_text_message ascii_tables default_keywords example_engine no_records
      all_calls_succeed (lit ''how to publish my article'') (lit ''A1'') (lit ''Ann'')
      (lit ''Student'') None) = lit ''publication'' \<and>
   confidence (process_text_message ascii_tables default_keywords example_engine no_records
      all_calls_succeed (lit ''how to publish my article'') (lit ''A1'') (lit ''Ann'')
      (lit ''Student'') None) = 1 \<and>
   sources (process_text_message ascii_tables default_keywords example_engine no_records
      all_calls_succeed (lit ''how to publish my article'') (lit ''A1'') (lit ''Ann'')
      (lit ''Student'') None) =
     snd (snd (query ascii_tables example_engine all_calls_succeed
       (str_strip (lit ''how to publish my article'')) (lit ''Student'') None))"
proof -
  have h1: "\<not> is_pure_greeting ascii_tables default_keywords
      (str_strip (lit ''how to publish my article''))"
    by code_simp
  have h2: "\<not> is_satisfied_response ascii_tables default_keywords
      (str_strip (lit ''how to publish my article''))"
    by code_simp
  have h3: "\<not> is_paypal_query ascii_tables default_keywords
      (str_strip (lit ''how to publish my article''))"
    by code_simp
  have h4: "is_publication_query ascii_tables default_keywords
      (str_strip (lit ''how to publish my article''))"
    by code_simp
  from publication_query_result[OF h1 h2 h3 h4, of example_engine no_records all_calls_succeed
      "lit ''A1''" "lit ''Ann''" "lit ''Student''" None]
  show ?thesis by blast
qed

text \<open>
  Claim C6 as it is written has an empty source list for every publication query. The
  handler returns the sources of the lookup: for \<^verbatim>\<open>how to publish my article\<close> on the example
  engine the result is classified \<^verbatim>\<open>publication\<close> and names two sources.
\<close>

theorem publication_sources_counterexample:
  "\<not> (category (process_text_message ascii_tables default_keywords example_engine no_records
          all_calls_succeed (lit ''how to publish my article'') (lit ''A1'') (lit ''Ann'')
          (lit ''Student'') None) = lit ''publication'' \<longrightarrow>
       confidence (process_text_message ascii_tables default_keywords example_engine no_records
          all_calls_succeed (lit ''how to publish my article'') (lit ''A1'') (lit ''Ann'')
          (lit ''Student'') None) = 1 \<and>
       sources (process_text_message ascii_tables default_keywords example_engine no_records
          all_calls_succeed (lit ''how to publish my article'') (lit ''A1'') (lit ''Ann'')
          (lit ''Student'') None) = [])"
proof -
  have "category (process_text_message ascii_tables default_keywords example_engine no_records
          all_calls_succeed (lit ''how to publish my article'') (lit ''A1'') (lit ''Ann'')
          (lit ''Student'') None) = lit ''publication''"
    by code_simp
  moreover
  have "sources (process_text_message ascii_tables default_keywords example_engine no_records
          all_calls_succeed (lit ''how to publish my article'') (lit ''A1'') (lit ''Ann'')
          (lit ''Student'') None) \<noteq> []"
    by code_simp
  ultimately show ?thesis by simp
qed

section \<open>Properties of the question extraction\<close>
























end
